theory Spec2Isabelle
  imports Main
begin

section \<open>Data model\<close>

text \<open>
  The checkout session of \<^verbatim>\<open>src/services/checkout-agent.service.ts\<close>. A TypeScript
  \<^verbatim>\<open>number\<close> that holds an amount, a price or a quantity is an \<open>int\<close>: the interfaces
  document them as amounts in the smallest currency unit. An optional property
  (\<^verbatim>\<open>userId?: string\<close>) is an \<open>option\<close>, \<open>None\<close> standing for \<^verbatim>\<open>undefined\<close>.
  Values of type \<^verbatim>\<open>Date\<close> (createdAt, updatedAt, lastCheckoutAt) are left out.
\<close>

datatype Status = active | pending_payment | completed | cancelled

datatype Role = User | Assistant

record CartItem =
  item_id :: string
  item_name :: string
  item_description :: "string option"
  price :: int
  quantity :: int

record Message =
  role :: Role
  content :: string

record CheckoutSession =
  sessionId :: string
  customerId :: "string option"
  userId :: "string option"
  cart :: "CartItem list"
  totalAmount :: int
  currency :: string
  conversationHistory :: "Message list"
  paymentMethod :: "string option"
  status :: Status
  shippingAddressId :: "string option"
  billingAddressId :: "string option"
  paymentMethodId :: "string option"

text \<open>A thrown \<^verbatim>\<open>Error\<close>, with its message.\<close>

datatype error = Error string

subsection \<open>Payment gateway objects (omise.service.ts)\<close>

record ChargeParams =
  cp_amount :: int
  cp_currency :: string
  cp_source :: string
  cp_description :: string
  cp_metadata :: "(string \<times> CartItem list) option"
  cp_return_uri :: "string option"

record SourceParams =
  sp_type :: string
  sp_amount :: int
  sp_currency :: string

text \<open>
  The gateway's answers are untyped (\<^verbatim>\<open>Promise<any>\<close>); the records keep the
  properties the service reads. \<open>scannable_download_uri\<close> is
  \<^verbatim>\<open>source.scannable_code?.image?.download_uri\<close>.
\<close>

record Charge =
  charge_id :: string
  charge_status :: string
  charge_amount :: int
  charge_currency :: string
  failure_message :: "string option"
  authorize_uri :: "string option"

record Source =
  source_id :: string
  scannable_download_uri :: "string option"

subsection \<open>Catalogue and profile objects\<close>

record Product =
  product_id :: string
  sku :: string
  product_name :: string
  product_description :: string
  product_price :: int
  product_currency :: string
  stock :: int

record AddAddressParams =
  firstName :: string
  lastName :: string
  address1 :: string
  address2 :: "string option"
  city :: string
  state :: string
  postalCode :: string
  country :: string
  phone :: "string option"
  label :: "string option"
  isDefault_param :: "bool option"

record SavedAddress =
  addr_id :: string
  addr_firstName :: string
  addr_lastName :: string
  addr_address1 :: string
  addr_address2 :: "string option"
  addr_city :: string
  addr_state :: string
  addr_postalCode :: string
  addr_country :: string
  addr_phone :: "string option"
  addr_label :: "string option"
  addr_isDefault :: bool

datatype PaymentMethodType = card | promptpay | internet_banking | mobile_banking

record AddPaymentMethodParams =
  new_type :: PaymentMethodType
  new_cardToken :: "string option"
  new_cardBrand :: "string option"
  new_cardLastDigits :: "string option"
  new_cardExpiryMonth :: "string option"
  new_cardExpiryYear :: "string option"
  new_cardHolderName :: "string option"
  new_bankCode :: "string option"
  new_phoneNumber :: "string option"
  new_isDefault :: "bool option"

record PaymentMethod =
  pm_id :: string
  pm_type :: PaymentMethodType
  pm_isDefault :: bool
  pm_cardToken :: "string option"
  pm_cardBrand :: "string option"
  pm_cardLastDigits :: "string option"
  pm_cardExpiryMonth :: "string option"
  pm_cardExpiryYear :: "string option"
  pm_cardHolderName :: "string option"
  pm_bankCode :: "string option"
  pm_phoneNumber :: "string option"

record Preferences =
  defaultShippingAddressId :: "string option"
  defaultBillingAddressId :: "string option"
  defaultPaymentMethodId :: "string option"
  sameAsBilling :: "bool option"

record UserProfile =
  profile_id :: string
  email :: string
  profile_firstName :: string
  profile_lastName :: string
  profile_phone :: "string option"
  shippingAddresses :: "SavedAddress list"
  billingAddresses :: "SavedAddress list"
  paymentMethods :: "PaymentMethod list"
  preferences :: Preferences
  totalOrders :: int
  totalSpent :: int

record QuickCheckoutData =
  qc_shippingAddress :: "SavedAddress option"
  qc_billingAddress :: "SavedAddress option"
  qc_paymentMethod :: "PaymentMethod option"

subsection \<open>Tool calls\<close>

text \<open>
  A \<^verbatim>\<open>tool_use\<close> block of the model's reply carries a tool name and an input object.
  The input is taken as decoded against the \<^verbatim>\<open>input_schema\<close> that \<^verbatim>\<open>getTools\<close> declares
  for that name: a required property is present, an optional one is an \<open>option\<close>.
  There is one constructor for each case label of the switch in \<^verbatim>\<open>handleToolCall\<close>, and
  \<open>other_tool n\<close> for a name \<open>n\<close> that matches no label.
\<close>

record AddressInput =
  first_name :: string
  last_name :: string
  in_address1 :: string
  in_address2 :: "string option"
  in_city :: string
  in_state :: string
  postal_code :: string
  in_country :: string
  in_phone :: "string option"
  in_label :: "string option"
  is_default :: "bool option"

record PaymentMethodInput =
  in_type :: PaymentMethodType
  card_token :: "string option"
  card_brand :: "string option"
  card_last_digits :: "string option"
  card_expiry_month :: "string option"
  card_expiry_year :: "string option"
  card_holder_name :: "string option"
  bank_code :: "string option"
  pm_is_default :: "bool option"

datatype ToolUse =
    process_card_payment string
  | create_promptpay_payment
  | create_internet_banking_payment string
  | check_payment_status string
  | search_product_by_sku string
  | add_product_to_cart string "int option"
  | update_cart_item string int
  | list_products "int option" "string option"
  | save_shipping_address AddressInput
  | save_billing_address AddressInput
  | get_saved_addresses
  | save_payment_method PaymentMethodInput
  | get_quick_checkout_data
  | process_quick_checkout "bool option"
  | other_tool string

datatype ContentBlock = Text_block string | Tool_use ToolUse

section \<open>The outside world\<close>

text \<open>
  Every call that leaves the process is a function of an abstract world state \<open>'x\<close>,
  which it may change: the Omise client library, the e-commerce platform behind
  \<^verbatim>\<open>EcommercePlatformManager\<close>, the Anthropic client, and the clock and random source
  that name new objects. A rejected promise is \<open>Inl\<close>. The platform manager and the
  profile service are optional constructor arguments of the service.

  \<open>anthropic_messages_create\<close> receives the session as it stands when the request is
  built: the system prompt, the message list and the tool list of the request are
  all computed from it and from the configuration.
\<close>

record 'x Platform =
  getProduct :: "string \<Rightarrow> 'x \<Rightarrow> (error + Product) \<times> 'x"
  searchProductBySku :: "string \<Rightarrow> 'x \<Rightarrow> (error + Product option) \<times> 'x"
  listProducts :: "int \<Rightarrow> string option \<Rightarrow> 'x \<Rightarrow> (error + Product list) \<times> 'x"

record 'x Env =
  omise_charges_create :: "ChargeParams \<Rightarrow> 'x \<Rightarrow> (string + Charge) \<times> 'x"
  omise_charges_retrieve :: "string \<Rightarrow> 'x \<Rightarrow> (string + Charge) \<times> 'x"
  omise_sources_create :: "SourceParams \<Rightarrow> 'x \<Rightarrow> (string + Source) \<times> 'x"
  ecommercePlatformManager :: "'x Platform option"
  userProfileService :: bool
  anthropic_messages_create :: "CheckoutSession \<Rightarrow> 'x \<Rightarrow> (error + ContentBlock list) \<times> 'x"
  date_now :: "'x \<Rightarrow> string \<times> 'x"
  math_random_36 :: "'x \<Rightarrow> string \<times> 'x"

text \<open>
  The state a tool handler works on: the session object it was given, the profile
  store of \<^verbatim>\<open>UserProfileService\<close>, and the world.
\<close>

record 'x HState =
  session :: CheckoutSession
  profiles :: "string \<rightharpoonup> UserProfile"
  world :: 'x

text \<open>The state of the whole service: the session map, the profile store, the world.\<close>

record 'x Service =
  sessions :: "string \<rightharpoonup> CheckoutSession"
  svc_profiles :: "string \<rightharpoonup> UserProfile"
  svc_world :: 'x

section \<open>Text\<close>

abbreviation nl :: string where
  "nl \<equiv> [CHR 0x0A]"

definition digit_char :: "nat \<Rightarrow> char" where
  "digit_char d = ''0123456789'' ! (d mod 10)"

function show_nat :: "nat \<Rightarrow> string" where
  "show_nat n = (if n < 10 then [digit_char n] else show_nat (n div 10) @ [digit_char n])"
  by pat_completeness auto
termination
  by (relation "measure (\<lambda>n. n)") auto

text \<open>A number in a template literal, for an integer.\<close>

definition show_int :: "int \<Rightarrow> string" where
  "show_int i = (if i < 0 then ''-'' @ show_nat (nat (- i)) else show_nat (nat i))"

text \<open>An optional string in a template literal.\<close>

definition show_opt :: "string option \<Rightarrow> string" where
  "show_opt s = (case s of None \<Rightarrow> ''undefined'' | Some t \<Rightarrow> t)"

text \<open>\<^verbatim>\<open>a || b\<close> on an optional string: \<^verbatim>\<open>undefined\<close> and the empty string are falsy.\<close>

definition or_else :: "string option \<Rightarrow> string \<Rightarrow> string" where
  "or_else s d = (case s of None \<Rightarrow> d | Some t \<Rightarrow> if t = [] then d else t)"

definition truthy :: "string option \<Rightarrow> bool" where
  "truthy s = (case s of None \<Rightarrow> False | Some t \<Rightarrow> t \<noteq> [])"

text \<open>
  \<^verbatim>\<open>(amount / 100).toFixed(2)\<close> for an integer amount: the sign, the whole part,
  a point and two digits.
\<close>

definition toFixed2 :: "int \<Rightarrow> string" where
  "toFixed2 amount =
     (let a = nat \<bar>amount\<bar> in
      (if amount < 0 then ''-'' else '''') @ show_nat (a div 100) @ ''.''
        @ [digit_char (a div 10), digit_char a])"

definition formatAmount :: "int \<Rightarrow> string \<Rightarrow> string" where
  "formatAmount amount cur = toFixed2 amount @ '' '' @ cur"

text \<open>\<^verbatim>\<open>Array.prototype.join\<close>.\<close>

fun join :: "string \<Rightarrow> string list \<Rightarrow> string" where
  "join sep [] = []"
| "join sep [x] = x"
| "join sep (x # y # ys) = x @ sep @ join sep (y # ys)"

text \<open>\<^verbatim>\<open>Array.prototype.findIndex\<close>; \<open>None\<close> is the source's \<open>-1\<close>.\<close>

fun findIndex :: "('a \<Rightarrow> bool) \<Rightarrow> 'a list \<Rightarrow> nat option" where
  "findIndex P [] = None"
| "findIndex P (x # xs) = (if P x then Some 0 else map_option Suc (findIndex P xs))"

section \<open>OmiseService (omise.service.ts)\<close>

definition createCharge :: "'x Env \<Rightarrow> ChargeParams \<Rightarrow> 'x \<Rightarrow> (error + Charge) \<times> 'x" where
  "createCharge env params w =
     (case omise_charges_create env params w of
        (Inl m, w') \<Rightarrow> (Inl (Error (''Failed to create charge: '' @ m)), w')
      | (Inr charge, w') \<Rightarrow> (Inr charge, w'))"

definition getCharge :: "'x Env \<Rightarrow> string \<Rightarrow> 'x \<Rightarrow> (error + Charge) \<times> 'x" where
  "getCharge env chargeId w =
     (case omise_charges_retrieve env chargeId w of
        (Inl m, w') \<Rightarrow> (Inl (Error (''Failed to retrieve charge: '' @ m)), w')
      | (Inr charge, w') \<Rightarrow> (Inr charge, w'))"

definition createSource :: "'x Env \<Rightarrow> SourceParams \<Rightarrow> 'x \<Rightarrow> (error + Source) \<times> 'x" where
  "createSource env params w =
     (case omise_sources_create env params w of
        (Inl m, w') \<Rightarrow> (Inl (Error (''Failed to create source: '' @ m)), w')
      | (Inr src, w') \<Rightarrow> (Inr src, w'))"

section \<open>Session registry (checkout-agent.service.ts)\<close>

definition calculateTotal :: "CartItem list \<Rightarrow> int" where
  "calculateTotal c = fold (\<lambda>item acc. acc + price item * quantity item) c 0"

definition generateSessionId :: "'x Env \<Rightarrow> 'x \<Rightarrow> string \<times> 'x" where
  "generateSessionId env w =
     (case date_now env w of (t, w1) \<Rightarrow>
      case math_random_36 env w1 of (r, w2) \<Rightarrow>
        (''sess_'' @ t @ ''_'' @ take 9 (drop 2 r), w2))"

text \<open>
  \<^verbatim>\<open>createSession\<close> keeps the cart array it is given; its one caller, the route of
  \<^verbatim>\<open>index.ts\<close>, passes the parsed request body and keeps no reference, so the cart
  is a value of the session. The default currency of the signature is left to the
  caller.
\<close>

definition createSession ::
  "'x Env \<Rightarrow> CartItem list \<Rightarrow> string \<Rightarrow> string option \<Rightarrow> 'x Service \<Rightarrow> CheckoutSession \<times> 'x Service"
where
  "createSession env c cur uid svc =
     (case generateSessionId env (svc_world svc) of (sid, w) \<Rightarrow>
      let total = calculateTotal c;
          s = \<lparr> sessionId = sid, customerId = None, userId = uid, cart = c,
                totalAmount = total, currency = cur, conversationHistory = [],
                paymentMethod = None, status = active, shippingAddressId = None,
                billingAddressId = None, paymentMethodId = None \<rparr>
      in (s, svc\<lparr> sessions := (sessions svc)(sid \<mapsto> s), svc_world := w \<rparr>))"

definition getSession :: "'x Service \<Rightarrow> string \<Rightarrow> CheckoutSession option" where
  "getSession svc sid = sessions svc sid"

section \<open>Payment handlers\<close>

text \<open>
  The argument objects of the gateway calls. \<open>cp_metadata\<close> holds the session
  identifier and the cart (the source sends the cart as JSON text).
\<close>

definition cardChargeParams :: "string \<Rightarrow> CheckoutSession \<Rightarrow> ChargeParams" where
  "cardChargeParams tok s =
     \<lparr> cp_amount = totalAmount s, cp_currency = currency s, cp_source = tok,
       cp_description = ''Order payment - Session '' @ sessionId s,
       cp_metadata = Some (sessionId s, cart s), cp_return_uri = None \<rparr>"

definition sourceChargeParams :: "Source \<Rightarrow> CheckoutSession \<Rightarrow> ChargeParams" where
  "sourceChargeParams src s =
     \<lparr> cp_amount = totalAmount s, cp_currency = currency s, cp_source = source_id src,
       cp_description = ''Order payment - Session '' @ sessionId s,
       cp_metadata = None,
       cp_return_uri = Some (''http://localhost:3000/checkout/callback/'' @ sessionId s) \<rparr>"

definition promptPaySourceParams :: "CheckoutSession \<Rightarrow> SourceParams" where
  "promptPaySourceParams s =
     \<lparr> sp_type = ''promptpay'', sp_amount = totalAmount s, sp_currency = currency s \<rparr>"

text \<open>
  The table \<^verbatim>\<open>bankTypes\<close> with its fallback \<^verbatim>\<open>bankTypes[bank] || 'internet_banking_bbl'\<close>
  (properties that an object literal inherits from its prototype are not modelled).
\<close>

definition bankTypes :: "(string \<times> string) list" where
  "bankTypes =
     [(''bbl'', ''internet_banking_bbl''), (''kbank'', ''internet_banking_kbank''),
      (''scb'', ''internet_banking_scb''), (''ktb'', ''internet_banking_ktb'')]"

definition bankSourceParams :: "string \<Rightarrow> CheckoutSession \<Rightarrow> SourceParams" where
  "bankSourceParams bank s =
     \<lparr> sp_type = or_else (map_of bankTypes bank) ''internet_banking_bbl'',
       sp_amount = totalAmount s, sp_currency = currency s \<rparr>"

definition processCardPayment ::
  "'x Env \<Rightarrow> string \<Rightarrow> 'x HState \<Rightarrow> (error + string) \<times> 'x HState"
where
  "processCardPayment env tok st =
     (let s = session st in
      case createCharge env (cardChargeParams tok s) (world st) of
        (Inl e, w) \<Rightarrow> (Inl e, st\<lparr> world := w \<rparr>)
      | (Inr charge, w) \<Rightarrow>
          if charge_status charge = ''successful'' \<or> charge_status charge = ''pending'' then
            (Inr (''Payment processed successfully! Charge ID: '' @ charge_id charge
                   @ '', Status: '' @ charge_status charge),
             st\<lparr> session :=
                    s\<lparr> status := (if charge_status charge = ''successful'' then completed
                                    else pending_payment) \<rparr>,
                  world := w \<rparr>)
          else
            (Inr (''Payment failed: '' @ or_else (failure_message charge) ''Unknown error''),
             st\<lparr> world := w \<rparr>))"

definition createPromptPayPayment ::
  "'x Env \<Rightarrow> 'x HState \<Rightarrow> (error + string) \<times> 'x HState"
where
  "createPromptPayPayment env st =
     (let s = session st in
      case createSource env (promptPaySourceParams s) (world st) of
        (Inl e, w) \<Rightarrow> (Inl e, st\<lparr> world := w \<rparr>)
      | (Inr src, w) \<Rightarrow>
         (case createCharge env (sourceChargeParams src s) w of
            (Inl e, w') \<Rightarrow> (Inl e, st\<lparr> world := w' \<rparr>)
          | (Inr charge, w') \<Rightarrow>
              (Inr (''PromptPay QR code generated! Scan URL: ''
                     @ or_else (scannable_download_uri src) (show_opt (authorize_uri charge))
                     @ nl @ ''Charge ID: '' @ charge_id charge),
               st\<lparr> session := s\<lparr> status := pending_payment \<rparr>, world := w' \<rparr>)))"

definition createInternetBankingPayment ::
  "'x Env \<Rightarrow> string \<Rightarrow> 'x HState \<Rightarrow> (error + string) \<times> 'x HState"
where
  "createInternetBankingPayment env bank st =
     (let s = session st in
      case createSource env (bankSourceParams bank s) (world st) of
        (Inl e, w) \<Rightarrow> (Inl e, st\<lparr> world := w \<rparr>)
      | (Inr src, w) \<Rightarrow>
         (case createCharge env (sourceChargeParams src s) w of
            (Inl e, w') \<Rightarrow> (Inl e, st\<lparr> world := w' \<rparr>)
          | (Inr charge, w') \<Rightarrow>
              (Inr (''Internet banking payment created! Please visit: ''
                     @ show_opt (authorize_uri charge)
                     @ nl @ ''Charge ID: '' @ charge_id charge),
               st\<lparr> session := s\<lparr> status := pending_payment \<rparr>, world := w' \<rparr>)))"

definition checkPaymentStatus ::
  "'x Env \<Rightarrow> string \<Rightarrow> 'x HState \<Rightarrow> (error + string) \<times> 'x HState"
where
  "checkPaymentStatus env chargeId st =
     (case getCharge env chargeId (world st) of
        (Inl e, w) \<Rightarrow> (Inl e, st\<lparr> world := w \<rparr>)
      | (Inr charge, w) \<Rightarrow>
          (Inr (''Payment status: '' @ charge_status charge @ '', Amount: ''
                 @ formatAmount (charge_amount charge) (charge_currency charge)),
           st\<lparr> world := w \<rparr>))"

section \<open>E-commerce platform handlers\<close>

text \<open>
  A handler of \<^verbatim>\<open>CheckoutAgentService\<close> that has the name of the manager's or the profile
  service's method it calls carries the suffix \<open>_tool\<close>.
\<close>

definition searchProductBySku_tool ::
  "'x Env \<Rightarrow> string \<Rightarrow> 'x HState \<Rightarrow> (error + string) \<times> 'x HState"
where
  "searchProductBySku_tool env k st =
     (case ecommercePlatformManager env of
        None \<Rightarrow> (Inr ''E-commerce platform integration is not available'', st)
      | Some mgr \<Rightarrow>
         (case searchProductBySku mgr k (world st) of
            (Inl e, w) \<Rightarrow> (Inl e, st\<lparr> world := w \<rparr>)
          | (Inr None, w) \<Rightarrow> (Inr (''No product found with SKU: '' @ k), st\<lparr> world := w \<rparr>)
          | (Inr (Some product), w) \<Rightarrow>
              (Inr (''Found product: '' @ product_name product @ nl
                     @ ''SKU: '' @ sku product @ nl
                     @ ''Price: '' @ formatAmount (product_price product) (product_currency product) @ nl
                     @ ''Stock: '' @ show_int (stock product) @ nl
                     @ ''Description: '' @ product_description product),
               st\<lparr> world := w \<rparr>)))"

definition addProductToCart ::
  "'x Env \<Rightarrow> string \<Rightarrow> int \<Rightarrow> 'x HState \<Rightarrow> (error + string) \<times> 'x HState"
where
  "addProductToCart env productId qty st =
     (case ecommercePlatformManager env of
        None \<Rightarrow> (Inr ''E-commerce platform integration is not available'', st)
      | Some mgr \<Rightarrow>
         (case getProduct mgr productId (world st) of
            (Inl e, w) \<Rightarrow> (Inl e, st\<lparr> world := w \<rparr>)
          | (Inr product, w) \<Rightarrow>
              (let s = session st;
                   cartItem = \<lparr> item_id = product_id product, item_name = product_name product,
                                item_description = Some (product_description product),
                                price = product_price product, quantity = qty \<rparr>;
                   c = cart s @ [cartItem];
                   s' = s\<lparr> cart := c, totalAmount := calculateTotal c \<rparr>
               in (Inr (''Added '' @ show_int qty @ ''x '' @ product_name product
                         @ '' to cart. New total: ''
                         @ formatAmount (totalAmount s') (currency s')),
                   st\<lparr> session := s', world := w \<rparr>))))"

text \<open>
  \<^verbatim>\<open>updateCartItem\<close> touches the session only and calls nothing that can throw.
  \<^verbatim>\<open>splice(itemIndex, 1)\<close> takes the item at the index out of the array.
\<close>

definition updateCartItem :: "string \<Rightarrow> int \<Rightarrow> CheckoutSession \<Rightarrow> string \<times> CheckoutSession" where
  "updateCartItem cartItemId qty s =
     (case findIndex (\<lambda>item. item_id item = cartItemId) (cart s) of
        None \<Rightarrow> (''Cart item with ID '' @ cartItemId @ '' not found'', s)
      | Some itemIndex \<Rightarrow>
          if qty = 0 then
            (let removedItem = cart s ! itemIndex;
                 c = take itemIndex (cart s) @ drop (Suc itemIndex) (cart s);
                 s' = s\<lparr> cart := c, totalAmount := calculateTotal c \<rparr>
             in (''Removed '' @ item_name removedItem @ '' from cart. New total: ''
                   @ formatAmount (totalAmount s') (currency s'), s'))
          else
            (let c = (cart s)[itemIndex := (cart s ! itemIndex)\<lparr> quantity := qty \<rparr>];
                 s' = s\<lparr> cart := c, totalAmount := calculateTotal c \<rparr>
             in (''Updated '' @ item_name (c ! itemIndex) @ '' quantity to '' @ show_int qty
                   @ ''. New total: '' @ formatAmount (totalAmount s') (currency s'), s')))"

definition listProducts_tool ::
  "'x Env \<Rightarrow> int \<Rightarrow> string option \<Rightarrow> 'x HState \<Rightarrow> (error + string) \<times> 'x HState"
where
  "listProducts_tool env lim srch st =
     (case ecommercePlatformManager env of
        None \<Rightarrow> (Inr ''E-commerce platform integration is not available'', st)
      | Some mgr \<Rightarrow>
         (case listProducts mgr lim srch (world st) of
            (Inl e, w) \<Rightarrow> (Inl e, st\<lparr> world := w \<rparr>)
          | (Inr products, w) \<Rightarrow>
              if products = [] then (Inr ''No products found'', st\<lparr> world := w \<rparr>)
              else
                (Inr (''Available products:'' @ nl
                       @ join nl (map (\<lambda>p. ''- '' @ product_name p @ '' (SKU: '' @ sku p @ '') - ''
                                          @ formatAmount (product_price p) (product_currency p)
                                          @ '' - Stock: '' @ show_int (stock p)) products)),
                 st\<lparr> world := w \<rparr>)))"

section \<open>UserProfileService (user-profile.service.ts)\<close>

text \<open>
  The methods the checkout agent calls, over the \<open>profiles\<close> map. A new identifier is
  a prefix, \<^verbatim>\<open>Date.now()\<close>, an underscore and \<^verbatim>\<open>Math.random().toString(36).substring(7)\<close>.
\<close>

definition getProfile :: "string \<Rightarrow> 'x HState \<Rightarrow> UserProfile option" where
  "getProfile uid st = profiles st uid"

definition newId :: "'x Env \<Rightarrow> string \<Rightarrow> 'x \<Rightarrow> string \<times> 'x" where
  "newId env prefix w =
     (case date_now env w of (t, w1) \<Rightarrow>
      case math_random_36 env w1 of (r, w2) \<Rightarrow>
        (prefix @ t @ ''_'' @ drop 7 r, w2))"

definition mkSavedAddress :: "string \<Rightarrow> AddAddressParams \<Rightarrow> SavedAddress" where
  "mkSavedAddress addressId a =
     \<lparr> addr_id = addressId, addr_firstName = firstName a, addr_lastName = lastName a,
       addr_address1 = address1 a, addr_address2 = address2 a, addr_city = city a,
       addr_state = state a, addr_postalCode = postalCode a, addr_country = country a,
       addr_phone = phone a, addr_label = label a,
       addr_isDefault = (case isDefault_param a of None \<Rightarrow> False | Some b \<Rightarrow> b) \<rparr>"

definition addShippingAddress ::
  "'x Env \<Rightarrow> string \<Rightarrow> AddAddressParams \<Rightarrow> 'x HState \<Rightarrow> (error + SavedAddress) \<times> 'x HState"
where
  "addShippingAddress env uid a st =
     (case getProfile uid st of
        None \<Rightarrow> (Inl (Error (''Profile '' @ uid @ '' not found'')), st)
      | Some profile \<Rightarrow>
         (case newId env ''addr_'' (world st) of (addressId, w) \<Rightarrow>
          let savedAddress = mkSavedAddress addressId a;
              profile1 =
                (if addr_isDefault savedAddress then
                   profile\<lparr> shippingAddresses :=
                              map (\<lambda>x. x\<lparr> addr_isDefault := False \<rparr>) (shippingAddresses profile),
                            preferences :=
                              (preferences profile)\<lparr> defaultShippingAddressId := Some addressId \<rparr> \<rparr>
                 else profile);
              profile2 =
                profile1\<lparr> shippingAddresses := shippingAddresses profile1 @ [savedAddress] \<rparr>
          in (Inr savedAddress, st\<lparr> profiles := (profiles st)(uid \<mapsto> profile2), world := w \<rparr>)))"

definition addBillingAddress ::
  "'x Env \<Rightarrow> string \<Rightarrow> AddAddressParams \<Rightarrow> 'x HState \<Rightarrow> (error + SavedAddress) \<times> 'x HState"
where
  "addBillingAddress env uid a st =
     (case getProfile uid st of
        None \<Rightarrow> (Inl (Error (''Profile '' @ uid @ '' not found'')), st)
      | Some profile \<Rightarrow>
         (case newId env ''addr_'' (world st) of (addressId, w) \<Rightarrow>
          let savedAddress = mkSavedAddress addressId a;
              profile1 =
                (if addr_isDefault savedAddress then
                   profile\<lparr> billingAddresses :=
                              map (\<lambda>x. x\<lparr> addr_isDefault := False \<rparr>) (billingAddresses profile),
                            preferences :=
                              (preferences profile)\<lparr> defaultBillingAddressId := Some addressId \<rparr> \<rparr>
                 else profile);
              profile2 =
                profile1\<lparr> billingAddresses := billingAddresses profile1 @ [savedAddress] \<rparr>
          in (Inr savedAddress, st\<lparr> profiles := (profiles st)(uid \<mapsto> profile2), world := w \<rparr>)))"

definition addPaymentMethod ::
  "'x Env \<Rightarrow> string \<Rightarrow> AddPaymentMethodParams \<Rightarrow> 'x HState \<Rightarrow> (error + PaymentMethod) \<times> 'x HState"
where
  "addPaymentMethod env uid m st =
     (case getProfile uid st of
        None \<Rightarrow> (Inl (Error (''Profile '' @ uid @ '' not found'')), st)
      | Some profile \<Rightarrow>
         (case newId env ''pm_'' (world st) of (methodId, w) \<Rightarrow>
          let savedMethod =
                \<lparr> pm_id = methodId, pm_type = new_type m,
                  pm_isDefault = (case new_isDefault m of None \<Rightarrow> False | Some b \<Rightarrow> b),
                  pm_cardToken = new_cardToken m, pm_cardBrand = new_cardBrand m,
                  pm_cardLastDigits = new_cardLastDigits m,
                  pm_cardExpiryMonth = new_cardExpiryMonth m,
                  pm_cardExpiryYear = new_cardExpiryYear m,
                  pm_cardHolderName = new_cardHolderName m, pm_bankCode = new_bankCode m,
                  pm_phoneNumber = new_phoneNumber m \<rparr>;
              profile1 =
                (if pm_isDefault savedMethod then
                   profile\<lparr> paymentMethods :=
                              map (\<lambda>x. x\<lparr> pm_isDefault := False \<rparr>) (paymentMethods profile),
                            preferences :=
                              (preferences profile)\<lparr> defaultPaymentMethodId := Some methodId \<rparr> \<rparr>
                 else profile);
              profile2 = profile1\<lparr> paymentMethods := paymentMethods profile1 @ [savedMethod] \<rparr>
          in (Inr savedMethod, st\<lparr> profiles := (profiles st)(uid \<mapsto> profile2), world := w \<rparr>)))"

text \<open>
  \<^verbatim>\<open>xs.find(p) || xs[0] || null\<close>: the first element that satisfies \<open>p\<close>, else the first
  element, else nothing.
\<close>

definition find_or_first :: "('a \<Rightarrow> bool) \<Rightarrow> 'a list \<Rightarrow> 'a option" where
  "find_or_first p xs =
     (case List.find p xs of
        Some x \<Rightarrow> Some x
      | None \<Rightarrow> (case xs of [] \<Rightarrow> None | x # _ \<Rightarrow> Some x))"

definition getDefaultShippingAddress :: "string \<Rightarrow> 'x HState \<Rightarrow> SavedAddress option" where
  "getDefaultShippingAddress uid st =
     (case getProfile uid st of
        None \<Rightarrow> None
      | Some profile \<Rightarrow> find_or_first addr_isDefault (shippingAddresses profile))"

definition getDefaultBillingAddress :: "string \<Rightarrow> 'x HState \<Rightarrow> SavedAddress option" where
  "getDefaultBillingAddress uid st =
     (case getProfile uid st of
        None \<Rightarrow> None
      | Some profile \<Rightarrow> find_or_first addr_isDefault (billingAddresses profile))"

definition getDefaultPaymentMethod :: "string \<Rightarrow> 'x HState \<Rightarrow> PaymentMethod option" where
  "getDefaultPaymentMethod uid st =
     (case getProfile uid st of
        None \<Rightarrow> None
      | Some profile \<Rightarrow> find_or_first pm_isDefault (paymentMethods profile))"

definition recordCheckout :: "string \<Rightarrow> int \<Rightarrow> 'x HState \<Rightarrow> (error + unit) \<times> 'x HState" where
  "recordCheckout uid orderAmount st =
     (case getProfile uid st of
        None \<Rightarrow> (Inl (Error (''Profile '' @ uid @ '' not found'')), st)
      | Some profile \<Rightarrow>
          (Inr (),
           st\<lparr> profiles :=
                  (profiles st)(uid \<mapsto>
                    profile\<lparr> totalOrders := totalOrders profile + 1,
                             totalSpent := totalSpent profile + orderAmount \<rparr>) \<rparr>))"

definition getQuickCheckoutData :: "string \<Rightarrow> 'x HState \<Rightarrow> QuickCheckoutData" where
  "getQuickCheckoutData uid st =
     (case getProfile uid st of
        None \<Rightarrow> \<lparr> qc_shippingAddress = None, qc_billingAddress = None, qc_paymentMethod = None \<rparr>
      | Some profile \<Rightarrow>
          \<lparr> qc_shippingAddress = getDefaultShippingAddress uid st,
            qc_billingAddress = getDefaultBillingAddress uid st,
            qc_paymentMethod = getDefaultPaymentMethod uid st \<rparr>)"

section \<open>User profile handlers (checkout-agent.service.ts)\<close>

text \<open>
  A handler tests \<^verbatim>\<open>!session.userId\<close> first, so where it goes on the identifier is a
  non-empty string.
\<close>

definition toAddressParams :: "AddressInput \<Rightarrow> AddAddressParams" where
  "toAddressParams a =
     \<lparr> firstName = first_name a, lastName = last_name a, address1 = in_address1 a,
       address2 = in_address2 a, city = in_city a, state = in_state a,
       postalCode = postal_code a, country = in_country a, phone = in_phone a,
       label = in_label a,
       isDefault_param = Some (case is_default a of None \<Rightarrow> False | Some b \<Rightarrow> b) \<rparr>"

definition saveShippingAddress ::
  "'x Env \<Rightarrow> AddressInput \<Rightarrow> 'x HState \<Rightarrow> (error + string) \<times> 'x HState"
where
  "saveShippingAddress env a st =
     (if \<not> userProfileService env then (Inr ''User profile service is not available'', st)
      else case userId (session st) of
        None \<Rightarrow>
          (Inr ''No user profile associated with this session. Please create a user profile first.'', st)
      | Some uid \<Rightarrow>
          if uid = [] then
            (Inr ''No user profile associated with this session. Please create a user profile first.'', st)
          else
            (case addShippingAddress env uid (toAddressParams a) st of
               (Inl e, st') \<Rightarrow> (Inl e, st')
             | (Inr savedAddress, st') \<Rightarrow>
                 (Inr (''Shipping address saved successfully! ''
                        @ (if addr_isDefault savedAddress then ''(Set as default)'' else [])
                        @ nl @ ''Address ID: '' @ addr_id savedAddress),
                  st'\<lparr> session :=
                         (session st')\<lparr> shippingAddressId := Some (addr_id savedAddress) \<rparr> \<rparr>)))"

definition saveBillingAddress ::
  "'x Env \<Rightarrow> AddressInput \<Rightarrow> 'x HState \<Rightarrow> (error + string) \<times> 'x HState"
where
  "saveBillingAddress env a st =
     (if \<not> userProfileService env then (Inr ''User profile service is not available'', st)
      else case userId (session st) of
        None \<Rightarrow>
          (Inr ''No user profile associated with this session. Please create a user profile first.'', st)
      | Some uid \<Rightarrow>
          if uid = [] then
            (Inr ''No user profile associated with this session. Please create a user profile first.'', st)
          else
            (case addBillingAddress env uid (toAddressParams a) st of
               (Inl e, st') \<Rightarrow> (Inl e, st')
             | (Inr savedAddress, st') \<Rightarrow>
                 (Inr (''Billing address saved successfully! ''
                        @ (if addr_isDefault savedAddress then ''(Set as default)'' else [])
                        @ nl @ ''Address ID: '' @ addr_id savedAddress),
                  st'\<lparr> session :=
                         (session st')\<lparr> billingAddressId := Some (addr_id savedAddress) \<rparr> \<rparr>)))"

definition showAddress :: "SavedAddress \<Rightarrow> string" where
  "showAddress a =
     ''- '' @ or_else (addr_label a) ''Address'' @ '': '' @ addr_address1 a @ '', ''
       @ addr_city a @ '', '' @ addr_state a @ '' '' @ addr_postalCode a
       @ (if addr_isDefault a then '' (Default)'' else [])"

definition getSavedAddresses :: "'x Env \<Rightarrow> 'x HState \<Rightarrow> (error + string) \<times> 'x HState" where
  "getSavedAddresses env st =
     (if \<not> userProfileService env then (Inr ''User profile service is not available'', st)
      else case userId (session st) of
        None \<Rightarrow> (Inr ''No user profile associated with this session.'', st)
      | Some uid \<Rightarrow>
          if uid = [] then (Inr ''No user profile associated with this session.'', st)
          else
            (case getProfile uid st of
               None \<Rightarrow> (Inr ''User profile not found'', st)
             | Some profile \<Rightarrow>
                 (let shipping = join nl (map showAddress (shippingAddresses profile));
                      billing = join nl (map showAddress (billingAddresses profile))
                  in (Inr (''Shipping Addresses:'' @ nl
                            @ (if shipping = [] then ''None saved'' else shipping) @ nl @ nl
                            @ ''Billing Addresses:'' @ nl
                            @ (if billing = [] then ''None saved'' else billing)),
                      st))))"

definition toPaymentMethodParams :: "PaymentMethodInput \<Rightarrow> AddPaymentMethodParams" where
  "toPaymentMethodParams m =
     \<lparr> new_type = in_type m, new_cardToken = card_token m, new_cardBrand = card_brand m,
       new_cardLastDigits = card_last_digits m, new_cardExpiryMonth = card_expiry_month m,
       new_cardExpiryYear = card_expiry_year m, new_cardHolderName = card_holder_name m,
       new_bankCode = bank_code m, new_phoneNumber = None,
       new_isDefault = Some (case pm_is_default m of None \<Rightarrow> False | Some b \<Rightarrow> b) \<rparr>"

definition savePaymentMethod ::
  "'x Env \<Rightarrow> PaymentMethodInput \<Rightarrow> 'x HState \<Rightarrow> (error + string) \<times> 'x HState"
where
  "savePaymentMethod env m st =
     (if \<not> userProfileService env then (Inr ''User profile service is not available'', st)
      else case userId (session st) of
        None \<Rightarrow>
          (Inr ''No user profile associated with this session. Please create a user profile first.'', st)
      | Some uid \<Rightarrow>
          if uid = [] then
            (Inr ''No user profile associated with this session. Please create a user profile first.'', st)
          else
            (case addPaymentMethod env uid (toPaymentMethodParams m) st of
               (Inl e, st') \<Rightarrow> (Inl e, st')
             | (Inr savedMethod, st') \<Rightarrow>
                 (Inr (''Payment method saved successfully! ''
                        @ (if pm_isDefault savedMethod then ''(Set as default)'' else [])
                        @ nl @ ''Payment Method ID: '' @ pm_id savedMethod),
                  st'\<lparr> session :=
                         (session st')\<lparr> paymentMethodId := Some (pm_id savedMethod) \<rparr> \<rparr>)))"

definition showType :: "PaymentMethodType \<Rightarrow> string" where
  "showType t =
     (case t of card \<Rightarrow> ''card'' | promptpay \<Rightarrow> ''promptpay''
      | internet_banking \<Rightarrow> ''internet_banking'' | mobile_banking \<Rightarrow> ''mobile_banking'')"

definition showQuickCheckoutData :: "QuickCheckoutData \<Rightarrow> string" where
  "showQuickCheckoutData checkoutData =
     ''Quick Checkout Data:'' @ nl @ nl
       @ (case qc_shippingAddress checkoutData of
            Some a \<Rightarrow> ''Shipping Address: '' @ addr_address1 a @ '', '' @ addr_city a
                        @ '', '' @ addr_state a @ nl
          | None \<Rightarrow> ''Shipping Address: Not saved'' @ nl)
       @ (case qc_billingAddress checkoutData of
            Some a \<Rightarrow> ''Billing Address: '' @ addr_address1 a @ '', '' @ addr_city a
                        @ '', '' @ addr_state a @ nl
          | None \<Rightarrow> ''Billing Address: Not saved'' @ nl)
       @ (case qc_paymentMethod checkoutData of
            Some pm \<Rightarrow>
              (if pm_type pm = card then
                 ''Payment Method: '' @ or_else (pm_cardBrand pm) ''Card''
                   @ '' ending in '' @ show_opt (pm_cardLastDigits pm) @ nl
               else ''Payment Method: '' @ showType (pm_type pm) @ nl)
          | None \<Rightarrow> ''Payment Method: Not saved'' @ nl)"

definition getQuickCheckoutData_tool ::
  "'x Env \<Rightarrow> 'x HState \<Rightarrow> (error + string) \<times> 'x HState"
where
  "getQuickCheckoutData_tool env st =
     (if \<not> userProfileService env then (Inr ''User profile service is not available'', st)
      else case userId (session st) of
        None \<Rightarrow> (Inr ''No user profile associated with this session.'', st)
      | Some uid \<Rightarrow>
          if uid = [] then (Inr ''No user profile associated with this session.'', st)
          else (Inr (showQuickCheckoutData (getQuickCheckoutData uid st)), st))"

text \<open>
  The payment step of \<^verbatim>\<open>processQuickCheckout\<close>: the if-chain on the saved method's type.
  \<open>None\<close> is its last branch, which returns without paying. Under the guard
  \<open>truthy x\<close> the term \<open>or_else x []\<close> is the string that \<open>x\<close> holds.
\<close>

definition payWithSavedMethod ::
  "'x Env \<Rightarrow> PaymentMethod \<Rightarrow> 'x HState \<Rightarrow> ((error + string) \<times> 'x HState) option"
where
  "payWithSavedMethod env pm st =
     (if pm_type pm = card \<and> truthy (pm_cardToken pm) then
        Some (processCardPayment env (or_else (pm_cardToken pm) []) st)
      else if pm_type pm = promptpay then
        Some (createPromptPayPayment env st)
      else if pm_type pm = internet_banking \<and> truthy (pm_bankCode pm) then
        Some (createInternetBankingPayment env (or_else (pm_bankCode pm) []) st)
      else None)"

text \<open>
  What \<^verbatim>\<open>processQuickCheckout\<close> does once it holds a saved payment method: pay, record
  the checkout on the profile when the session stands at \<open>completed\<close>, and answer.
\<close>

definition quickCheckoutWith ::
  "'x Env \<Rightarrow> string \<Rightarrow> PaymentMethod \<Rightarrow> 'x HState \<Rightarrow> (error + string) \<times> 'x HState"
where
  "quickCheckoutWith env uid pm st =
     (case payWithSavedMethod env pm st of
        None \<Rightarrow> (Inr ''Saved payment method is incomplete or invalid.'', st)
      | Some (Inl e, st1) \<Rightarrow> (Inl e, st1)
      | Some (Inr result, st1) \<Rightarrow>
          if status (session st1) = completed then
            (case recordCheckout uid (totalAmount (session st1)) st1 of
               (Inl e, st2) \<Rightarrow> (Inl e, st2)
             | (Inr u, st2) \<Rightarrow> (Inr (''Quick Checkout:'' @ nl @ result), st2))
          else (Inr (''Quick Checkout:'' @ nl @ result), st1))"

definition processQuickCheckout ::
  "'x Env \<Rightarrow> bool option \<Rightarrow> 'x HState \<Rightarrow> (error + string) \<times> 'x HState"
where
  "processQuickCheckout env useSavedPayment st =
     (if \<not> userProfileService env then (Inr ''User profile service is not available'', st)
      else case userId (session st) of
        None \<Rightarrow>
          (Inr ''No user profile associated with this session. Cannot process quick checkout.'', st)
      | Some uid \<Rightarrow>
          if uid = [] then
            (Inr ''No user profile associated with this session. Cannot process quick checkout.'', st)
          else
            (case qc_paymentMethod (getQuickCheckoutData uid st) of
               None \<Rightarrow>
                 (Inr ''No saved payment method found. Please add a payment method first.'', st)
             | Some pm \<Rightarrow> quickCheckoutWith env uid pm st))"

section \<open>Tool dispatch and the chat turn\<close>

text \<open>The body of the \<^verbatim>\<open>try\<close> block of \<^verbatim>\<open>handleToolCall\<close>: the switch on the tool name.\<close>

definition toolSwitch :: "'x Env \<Rightarrow> ToolUse \<Rightarrow> 'x HState \<Rightarrow> (error + string) \<times> 'x HState" where
  "toolSwitch env tool st =
     (case tool of
        process_card_payment tok \<Rightarrow> processCardPayment env tok st
      | create_promptpay_payment \<Rightarrow> createPromptPayPayment env st
      | create_internet_banking_payment bank \<Rightarrow> createInternetBankingPayment env bank st
      | check_payment_status chargeId \<Rightarrow> checkPaymentStatus env chargeId st
      | search_product_by_sku k \<Rightarrow> searchProductBySku_tool env k st
      | add_product_to_cart productId qty \<Rightarrow>
          addProductToCart env productId
            (case qty of None \<Rightarrow> 1 | Some q \<Rightarrow> if q = 0 then 1 else q) st
      | update_cart_item cartItemId qty \<Rightarrow>
          (case updateCartItem cartItemId qty (session st) of
             (r, s') \<Rightarrow> (Inr r, st\<lparr> session := s' \<rparr>))
      | list_products lim srch \<Rightarrow>
          listProducts_tool env
            (case lim of None \<Rightarrow> 10 | Some n \<Rightarrow> if n = 0 then 10 else n) srch st
      | save_shipping_address a \<Rightarrow> saveShippingAddress env a st
      | save_billing_address a \<Rightarrow> saveBillingAddress env a st
      | get_saved_addresses \<Rightarrow> getSavedAddresses env st
      | save_payment_method m \<Rightarrow> savePaymentMethod env m st
      | get_quick_checkout_data \<Rightarrow> getQuickCheckoutData_tool env st
      | process_quick_checkout useSavedPayment \<Rightarrow> processQuickCheckout env useSavedPayment st
      | other_tool n \<Rightarrow> (Inr (''Unknown tool: '' @ n), st))"

text \<open>\<^verbatim>\<open>handleToolCall\<close>: the switch, and the \<^verbatim>\<open>catch\<close> that turns a thrown error into text.\<close>

definition handleToolCall :: "'x Env \<Rightarrow> ToolUse \<Rightarrow> 'x HState \<Rightarrow> string \<times> 'x HState" where
  "handleToolCall env tool st =
     (case toolSwitch env tool st of
        (Inl (Error m), st') \<Rightarrow> (''Error: '' @ m, st')
      | (Inr r, st') \<Rightarrow> (r, st'))"

text \<open>The loop of \<^verbatim>\<open>chat\<close> over the content blocks of the model's reply.\<close>

fun processContent ::
  "'x Env \<Rightarrow> ContentBlock list \<Rightarrow> string \<Rightarrow> 'x HState \<Rightarrow> string \<times> 'x HState"
where
  "processContent env [] assistantMessage st = (assistantMessage, st)"
| "processContent env (Text_block t # rest) assistantMessage st =
     processContent env rest (assistantMessage @ t) st"
| "processContent env (Tool_use tool # rest) assistantMessage st =
     (case handleToolCall env tool st of
        (toolResult, st') \<Rightarrow>
          processContent env rest (assistantMessage @ nl @ nl @ toolResult) st')"

text \<open>
  \<^verbatim>\<open>chat\<close>. The session object lives in the session map and is changed in place, so
  the map holds the changed session whether the call returns or throws.
\<close>

definition chat ::
  "'x Env \<Rightarrow> string \<Rightarrow> string \<Rightarrow> 'x Service \<Rightarrow> (error + string) \<times> 'x Service"
where
  "chat env sid userMessage svc =
     (case sessions svc sid of
        None \<Rightarrow> (Inl (Error ''Session not found''), svc)
      | Some s \<Rightarrow>
         (let s1 = s\<lparr> conversationHistory :=
                        conversationHistory s @ [\<lparr> role = User, content = userMessage \<rparr>] \<rparr>
          in case anthropic_messages_create env s1 (svc_world svc) of
               (Inl e, w) \<Rightarrow>
                 (Inl e, svc\<lparr> sessions := (sessions svc)(sid \<mapsto> s1), svc_world := w \<rparr>)
             | (Inr response, w) \<Rightarrow>
                (case processContent env response []
                        \<lparr> session = s1, profiles = svc_profiles svc, world = w \<rparr> of
                   (assistantMessage, st) \<Rightarrow>
                     (let s2 = (session st)\<lparr> conversationHistory :=
                                 conversationHistory (session st)
                                   @ [\<lparr> role = Assistant, content = assistantMessage \<rparr>] \<rparr>
                      in (Inr assistantMessage,
                          \<lparr> sessions = (sessions svc)(sid \<mapsto> s2),
                            svc_profiles = profiles st, svc_world = world st \<rparr>)))))"

section \<open>Properties and sample data\<close>

text \<open>The total of a session is the sum over its cart of price times quantity.\<close>

definition total_ok :: "CheckoutSession \<Rightarrow> bool" where
  "total_ok s = (totalAmount s = (\<Sum>item\<leftarrow>cart s. price item * quantity item))"

text \<open>
  What one tool call may do to the session it is given: the identifying fields and
  the conversation stay; the status stays or becomes \<open>completed\<close> or
  \<open>pending_payment\<close>; the cart and the total stay as they are, or the total is the
  sum over the cart.
\<close>

definition session_step :: "CheckoutSession \<Rightarrow> CheckoutSession \<Rightarrow> bool" where
  "session_step s s' =
     (sessionId s' = sessionId s \<and> customerId s' = customerId s \<and> userId s' = userId s \<and>
      currency s' = currency s \<and> conversationHistory s' = conversationHistory s \<and>
      paymentMethod s' = paymentMethod s \<and>
      (status s' = status s \<or> status s' = completed \<or> status s' = pending_payment) \<and>
      (cart s' = cart s \<and> totalAmount s' = totalAmount s \<or> total_ok s'))"

text \<open>The tools that pay.\<close>

definition payment_tool :: "ToolUse \<Rightarrow> bool" where
  "payment_tool tool =
     (case tool of
        process_card_payment tok \<Rightarrow> True
      | create_promptpay_payment \<Rightarrow> True
      | create_internet_banking_payment bank \<Rightarrow> True
      | process_quick_checkout u \<Rightarrow> True
      | _ \<Rightarrow> False)"

text \<open>
  The states of the service: it starts with no session; sessions are created; chat
  turns run; and the profile store and the world change from outside the agent (the
  profile routes, the gateway, time).
\<close>

inductive reachable :: "'x Env \<Rightarrow> 'x Service \<Rightarrow> bool" for env :: "'x Env" where
  started: "reachable env \<lparr> sessions = Map.empty, svc_profiles = ps, svc_world = w \<rparr>"
| created: "reachable env svc \<Longrightarrow> reachable env (snd (createSession env c cur uid svc))"
| chatted: "reachable env svc \<Longrightarrow> reachable env (snd (chat env sid msg svc))"
| outside: "reachable env svc \<Longrightarrow> reachable env (svc\<lparr> svc_profiles := ps, svc_world := w \<rparr>)"

text \<open>
  A small world for running the model: the world state counts the calls made, the
  gateway answers every charge with the status \<open>st\<close> given, the platform knows one
  product, and the model answers with the blocks \<open>reply\<close>.
\<close>

definition demo_charge :: "string \<Rightarrow> ChargeParams \<Rightarrow> Charge" where
  "demo_charge st p =
     \<lparr> charge_id = ''chrg_test_1'', charge_status = st, charge_amount = cp_amount p,
       charge_currency = cp_currency p,
       failure_message = (if st = ''failed'' then Some ''insufficient funds'' else None),
       authorize_uri = Some ''https://pay.example/authorize'' \<rparr>"

definition demo_product :: Product where
  "demo_product =
     \<lparr> product_id = ''prod_1'', sku = ''SKU-1'', product_name = ''Gadget'',
       product_description = ''A gadget'', product_price = 29900,
       product_currency = ''THB'', stock = 5 \<rparr>"

definition demo_platform :: "nat Platform" where
  "demo_platform =
     \<lparr> getProduct = (\<lambda>i w. (if i = ''prod_1'' then Inr demo_product
                              else Inl (Error ''Product not found''), Suc w)),
       searchProductBySku = (\<lambda>k w. (Inr (if k = ''SKU-1'' then Some demo_product else None), Suc w)),
       listProducts = (\<lambda>n q w. (Inr [demo_product], Suc w)) \<rparr>"

definition demo_env :: "string \<Rightarrow> ContentBlock list \<Rightarrow> nat Env" where
  "demo_env st reply =
     \<lparr> omise_charges_create = (\<lambda>p w. (Inr (demo_charge st p), Suc w)),
       omise_charges_retrieve = (\<lambda>i w. (Inl ''charge was not found'', Suc w)),
       omise_sources_create =
         (\<lambda>p w. (Inr \<lparr> source_id = ''src_test_1'', scannable_download_uri = None \<rparr>, Suc w)),
       ecommercePlatformManager = Some demo_platform,
       userProfileService = True,
       anthropic_messages_create = (\<lambda>s w. (Inr reply, Suc w)),
       date_now = (\<lambda>w. (''1700000000000'', w)),
       math_random_36 = (\<lambda>w. (''0.k3f9x2m7qpz'', w)) \<rparr>"

text \<open>An environment whose gateway and model reject every call.\<close>

definition down_env :: "nat Env" where
  "down_env =
     \<lparr> omise_charges_create = (\<lambda>p w. (Inl ''connection refused'', Suc w)),
       omise_charges_retrieve = (\<lambda>i w. (Inl ''connection refused'', Suc w)),
       omise_sources_create = (\<lambda>p w. (Inl ''connection refused'', Suc w)),
       ecommercePlatformManager = None,
       userProfileService = False,
       anthropic_messages_create = (\<lambda>s w. (Inl (Error ''overloaded''), Suc w)),
       date_now = (\<lambda>w. (''1700000000000'', w)),
       math_random_36 = (\<lambda>w. (''0.k3f9x2m7qpz'', w)) \<rparr>"

definition widget :: CartItem where
  "widget = \<lparr> item_id = ''1'', item_name = ''Widget'', item_description = None,
              price = 100000, quantity = 1 \<rparr>"

definition gadget :: CartItem where
  "gadget = \<lparr> item_id = ''2'', item_name = ''Gadget'', item_description = None,
              price = 29900, quantity = 3 \<rparr>"

definition demo_session :: "Status \<Rightarrow> CartItem list \<Rightarrow> CheckoutSession" where
  "demo_session st c =
     \<lparr> sessionId = ''sess_1'', customerId = None, userId = Some ''user_1'', cart = c,
       totalAmount = calculateTotal c, currency = ''THB'', conversationHistory = [],
       paymentMethod = None, status = st, shippingAddressId = None,
       billingAddressId = None, paymentMethodId = None \<rparr>"

definition demo_method :: "PaymentMethodType \<Rightarrow> bool \<Rightarrow> PaymentMethod" where
  "demo_method t d =
     \<lparr> pm_id = ''pm_1'', pm_type = t, pm_isDefault = d, pm_cardToken = None,
       pm_cardBrand = None, pm_cardLastDigits = None, pm_cardExpiryMonth = None,
       pm_cardExpiryYear = None, pm_cardHolderName = None, pm_bankCode = None,
       pm_phoneNumber = None \<rparr>"

definition demo_profile :: "PaymentMethod list \<Rightarrow> UserProfile" where
  "demo_profile ms =
     \<lparr> profile_id = ''user_1'', email = ''a@example.com'', profile_firstName = ''A'',
       profile_lastName = ''B'', profile_phone = None, shippingAddresses = [],
       billingAddresses = [], paymentMethods = ms,
       preferences = \<lparr> defaultShippingAddressId = None, defaultBillingAddressId = None,
                       defaultPaymentMethodId = None, sameAsBilling = None \<rparr>,
       totalOrders = 0, totalSpent = 0 \<rparr>"

definition demo_state :: "Status \<Rightarrow> CartItem list \<Rightarrow> PaymentMethod list \<Rightarrow> nat HState" where
  "demo_state st c ms =
     \<lparr> session = demo_session st c,
       profiles = [''user_1'' \<mapsto> demo_profile ms],
       world = 0 \<rparr>"

definition demo_service :: "Status \<Rightarrow> CartItem list \<Rightarrow> nat Service" where
  "demo_service st c =
     \<lparr> sessions = [''sess_1'' \<mapsto> demo_session st c],
       svc_profiles = Map.empty,
       svc_world = 0 \<rparr>"

definition empty_service :: "nat Service" where
  "empty_service = \<lparr> sessions = Map.empty, svc_profiles = Map.empty, svc_world = 0 \<rparr>"

definition demo_reply :: "ContentBlock list" where
  "demo_reply =
     [Text_block ''Checking.'', Tool_use (check_payment_status ''chrg_test_9''),
      Text_block '' Done.'']"

definition bank_method :: PaymentMethod where
  "bank_method = (demo_method internet_banking False)\<lparr> pm_id := ''pm_2'', pm_bankCode := Some ''scb'' \<rparr>"

text \<open>
  The state after \<open>save_payment_method\<close> has saved a PromptPay method, with no
  \<open>is_default\<close> given, to a profile that had none.
\<close>

definition promptpay_input :: PaymentMethodInput where
  "promptpay_input =
     \<lparr> in_type = promptpay, card_token = None, card_brand = None, card_last_digits = None,
       card_expiry_month = None, card_expiry_year = None, card_holder_name = None,
       bank_code = None, pm_is_default = None \<rparr>"

definition saved_state :: "nat HState" where
  "saved_state =
     snd (handleToolCall (demo_env ''pending'' []) (save_payment_method promptpay_input)
            (demo_state active [widget] []))"

text \<open>
  The state after \<open>save_payment_method\<close> has saved a card without a token, with no
  \<open>is_default\<close> given, to a profile that had no payment method.
\<close>

definition card_input :: PaymentMethodInput where
  "card_input =
     \<lparr> in_type = card, card_token = None, card_brand = Some ''Visa'',
       card_last_digits = Some ''4242'', card_expiry_month = None, card_expiry_year = None,
       card_holder_name = None, bank_code = None, pm_is_default = None \<rparr>"

definition card_saved_state :: "nat HState" where
  "card_saved_state =
     snd (handleToolCall (demo_env ''successful'' []) (save_payment_method card_input)
            (demo_state active [widget] []))"

definition card_method :: PaymentMethod where
  "card_method = (demo_method card False)\<lparr> pm_id := ''pm_3'', pm_cardToken := Some ''tokn_saved_1'' \<rparr>"

section \<open>What a tool call does to the session\<close>

lemma fold_add_sum:
  "fold (\<lambda>item acc. acc + f item) xs (a::int) = a + (\<Sum>x\<leftarrow>xs. f x)"
  by (induction xs arbitrary: a) simp_all

lemma calculateTotal_sum:
  "calculateTotal c = (\<Sum>item\<leftarrow>c. price item * quantity item)"
  by (simp add: calculateTotal_def fold_add_sum)

lemma session_step_refl: "session_step s s"
  by (simp add: session_step_def)

lemma session_step_trans:
  "session_step s s' \<Longrightarrow> session_step s' s'' \<Longrightarrow> session_step s s''"
  unfolding session_step_def total_ok_def by auto

lemma processCardPayment_step:
  "session_step (session st) (session (snd (processCardPayment env tok st)))"
  by (auto simp: processCardPayment_def session_step_def Let_def split: prod.splits sum.splits)

lemma createPromptPayPayment_step:
  "session_step (session st) (session (snd (createPromptPayPayment env st)))"
  by (auto simp: createPromptPayPayment_def session_step_def Let_def split: prod.splits sum.splits)

lemma createInternetBankingPayment_step:
  "session_step (session st) (session (snd (createInternetBankingPayment env bank st)))"
  by (auto simp: createInternetBankingPayment_def session_step_def Let_def split: prod.splits sum.splits)

lemma checkPaymentStatus_same:
  "session (snd (checkPaymentStatus env i st)) = session st"
  by (auto simp: checkPaymentStatus_def split: prod.splits sum.splits)

lemma searchProductBySku_same:
  "session (snd (searchProductBySku_tool env k st)) = session st"
  by (auto simp: searchProductBySku_tool_def split: prod.splits sum.splits option.splits)

lemma listProducts_same:
  "session (snd (listProducts_tool env n q st)) = session st"
  by (auto simp: listProducts_tool_def split: prod.splits sum.splits option.splits)

lemma addProductToCart_step:
  "session_step (session st) (session (snd (addProductToCart env i q st)))"
  by (auto simp: addProductToCart_def session_step_def total_ok_def calculateTotal_sum Let_def
      split: prod.splits sum.splits option.splits)

lemma updateCartItem_step:
  "session_step s (snd (updateCartItem i q s))"
  by (auto simp: updateCartItem_def session_step_def total_ok_def calculateTotal_sum Let_def
      split: prod.splits sum.splits option.splits)

lemma addShippingAddress_same: "session (snd (addShippingAddress env u a st)) = session st"
  by (auto simp: addShippingAddress_def Let_def split: prod.splits option.splits)

lemma addBillingAddress_same: "session (snd (addBillingAddress env u a st)) = session st"
  by (auto simp: addBillingAddress_def Let_def split: prod.splits option.splits)

lemma addPaymentMethod_same: "session (snd (addPaymentMethod env u a st)) = session st"
  by (auto simp: addPaymentMethod_def Let_def split: prod.splits option.splits)

lemma recordCheckout_same: "session (snd (recordCheckout u n st)) = session st"
  by (auto simp: recordCheckout_def split: option.splits)

lemma snd_eqD: "f = (a, b) \<Longrightarrow> b = snd f"
  by simp

lemma saveShippingAddress_step:
  "session_step (session st) (session (snd (saveShippingAddress env a st)))
   \<and> status (session (snd (saveShippingAddress env a st))) = status (session st)"
  by (auto simp: saveShippingAddress_def session_step_def
      split: prod.splits sum.splits option.splits
      dest!: snd_eqD[where f="addShippingAddress _ _ _ _"] simp: addShippingAddress_same)

lemma saveBillingAddress_step:
  "session_step (session st) (session (snd (saveBillingAddress env a st)))
   \<and> status (session (snd (saveBillingAddress env a st))) = status (session st)"
  by (auto simp: saveBillingAddress_def session_step_def
      split: prod.splits sum.splits option.splits
      dest!: snd_eqD[where f="addBillingAddress _ _ _ _"] simp: addBillingAddress_same)

lemma savePaymentMethod_step:
  "session_step (session st) (session (snd (savePaymentMethod env a st)))
   \<and> status (session (snd (savePaymentMethod env a st))) = status (session st)"
  by (auto simp: savePaymentMethod_def session_step_def
      split: prod.splits sum.splits option.splits
      dest!: snd_eqD[where f="addPaymentMethod _ _ _ _"] simp: addPaymentMethod_same)

lemma getSavedAddresses_same: "snd (getSavedAddresses env st) = st"
  by (auto simp: getSavedAddresses_def Let_def split: option.splits)

lemma getQuickCheckoutData_tool_same: "snd (getQuickCheckoutData_tool env st) = st"
  by (auto simp: getQuickCheckoutData_tool_def split: option.splits)

lemma payWithSavedMethod_step:
  "payWithSavedMethod env pm st = Some (r, st1) \<Longrightarrow> session_step (session st) (session st1)"
  using processCardPayment_step[of st env] createPromptPayPayment_step[of st env]
    createInternetBankingPayment_step[of st env]
  by (auto simp: payWithSavedMethod_def split: if_splits dest!: snd_eqD)

lemma quickCheckoutWith_step:
  "session_step (session st) (session (snd (quickCheckoutWith env u pm st)))"
proof (cases "payWithSavedMethod env pm st")
  case None
  then show ?thesis by (simp add: quickCheckoutWith_def session_step_refl)
next
  case (Some p)
  obtain r st1 where p: "p = (r, st1)" by (cases p)
  have step: "session_step (session st) (session st1)"
    using Some p payWithSavedMethod_step by blast
  have "session (snd (quickCheckoutWith env u pm st)) = session st1"
    using Some p recordCheckout_same[of u "totalAmount (session st1)" st1]
    by (auto simp: quickCheckoutWith_def split: sum.splits prod.splits)
  then show ?thesis using step by simp
qed

lemma processQuickCheckout_step:
  "session_step (session st) (session (snd (processQuickCheckout env u st)))"
  by (auto simp: processQuickCheckout_def session_step_refl quickCheckoutWith_step
      split: option.splits)

lemma toolSwitch_step:
  "session_step (session st) (session (snd (toolSwitch env tool st)))"
proof (cases tool)
  case (update_cart_item i q)
  then show ?thesis
    using updateCartItem_step[of "session st" i q]
    by (auto simp: toolSwitch_def split: prod.splits)
qed (simp_all add: toolSwitch_def processCardPayment_step createPromptPayPayment_step
      createInternetBankingPayment_step checkPaymentStatus_same searchProductBySku_same
      listProducts_same addProductToCart_step saveShippingAddress_step saveBillingAddress_step
      savePaymentMethod_step getSavedAddresses_same getQuickCheckoutData_tool_same
      processQuickCheckout_step session_step_refl)

lemma addProductToCart_status:
  "status (session (snd (addProductToCart env i q st))) = status (session st)"
  by (auto simp: addProductToCart_def Let_def split: prod.splits sum.splits option.splits)

lemma updateCartItem_status: "status (snd (updateCartItem i q s)) = status s"
  by (auto simp: updateCartItem_def Let_def split: option.splits)

lemma toolSwitch_status:
  "\<not> payment_tool tool \<Longrightarrow>
   status (session (snd (toolSwitch env tool st))) = status (session st)"
proof (cases tool)
  case (update_cart_item i q)
  then show ?thesis
    using updateCartItem_status[of i q "session st"]
    by (auto simp: toolSwitch_def split: prod.splits)
qed (simp_all add: toolSwitch_def payment_tool_def checkPaymentStatus_same searchProductBySku_same
      listProducts_same addProductToCart_status saveShippingAddress_step saveBillingAddress_step
      savePaymentMethod_step getSavedAddresses_same getQuickCheckoutData_tool_same)

lemma handleToolCall_snd: "snd (handleToolCall env tool st) = snd (toolSwitch env tool st)"
  by (auto simp: handleToolCall_def split: prod.splits sum.splits error.splits)

lemma handleToolCall_step:
  "session_step (session st) (session (snd (handleToolCall env tool st)))"
  by (simp add: handleToolCall_snd toolSwitch_step)

lemma processContent_step:
  "session_step (session st) (session (snd (processContent env blocks acc st)))"
proof (induction blocks arbitrary: acc st)
  case Nil
  then show ?case by (simp add: session_step_refl)
next
  case (Cons b blocks)
  show ?case
  proof (cases b)
    case (Text_block t)
    then show ?thesis using Cons.IH by simp
  next
    case (Tool_use tool)
    obtain r st' where h: "handleToolCall env tool st = (r, st')"
      by (cases "handleToolCall env tool st")
    have "session_step (session st) (session st')"
      using handleToolCall_step[of st env tool] h by simp
    then show ?thesis
      using Tool_use h Cons.IH[of st' "acc @ nl @ nl @ r"] session_step_trans by auto
  qed
qed

lemma findIndex_Some_iff:
  "findIndex P xs = Some i \<longleftrightarrow> i < length xs \<and> P (xs ! i) \<and> (\<forall>j<i. \<not> P (xs ! j))"
proof (induction xs arbitrary: i)
  case Nil
  then show ?case by simp
next
  case (Cons x xs)
  show ?case
  proof (cases "P x")
    case True
    then show ?thesis by (cases i) auto
  next
    case False
    show ?thesis
    proof (cases i)
      case 0
      with False show ?thesis by simp
    next
      case (Suc k)
      have "(\<forall>j<Suc k. \<not> P ((x # xs) ! j)) \<longleftrightarrow> (\<forall>j<k. \<not> P (xs ! j))"
        using False by (auto simp: less_Suc_eq_0_disj)
      with False Suc Cons.IH[of k] show ?thesis by auto
    qed
  qed
qed

lemma findIndex_None_iff: "findIndex P xs = None \<longleftrightarrow> (\<forall>x\<in>set xs. \<not> P x)"
  by (induction xs) auto

section \<open>The total follows the cart\<close>

lemma createSession_sessions:
  "sessions (snd (createSession env c cur uid svc)) sid = Some s \<Longrightarrow>
     sessions svc sid = Some s \<or> s = fst (createSession env c cur uid svc)"
  by (auto simp: createSession_def Let_def split: prod.splits if_splits)

lemma createSession_total_ok: "total_ok (fst (createSession env c cur uid svc))"
  by (simp add: createSession_def total_ok_def calculateTotal_sum Let_def split: prod.splits)

lemma chat_sessions:
  assumes "sessions (snd (chat env sid msg svc)) k = Some s'"
  shows "sessions svc k = Some s' \<or>
         (\<exists>s. sessions svc sid = Some s \<and> (total_ok s \<longrightarrow> total_ok s'))"
proof (cases "sessions svc sid")
  case None
  then show ?thesis using assms by (simp add: chat_def)
next
  case (Some s)
  let ?s1 = "s\<lparr> conversationHistory :=
                 conversationHistory s @ [\<lparr> role = User, content = msg \<rparr>] \<rparr>"
  obtain out w where m: "anthropic_messages_create env ?s1 (svc_world svc) = (out, w)"
    by (cases "anthropic_messages_create env ?s1 (svc_world svc)")
  show ?thesis
  proof (cases out)
    case (Inl e)
    then show ?thesis
      using assms Some m by (auto simp: chat_def Let_def total_ok_def split: if_splits)
  next
    case (Inr blocks)
    let ?st0 = "\<lparr> session = ?s1, profiles = svc_profiles svc, world = w \<rparr>"
    obtain reply st where p: "processContent env blocks [] ?st0 = (reply, st)"
      by (cases "processContent env blocks [] ?st0")
    have "session_step ?s1 (session st)"
      using processContent_step[of ?st0 env blocks "[]"] p by simp
    then have t: "total_ok s \<longrightarrow> total_ok (session st)"
      by (auto simp: session_step_def total_ok_def)
    show ?thesis
      using assms Some m Inr p t by (auto simp: chat_def Let_def total_ok_def split: if_splits)
  qed
qed

lemma reachable_total_ok:
  "reachable env svc \<Longrightarrow> sessions svc sid = Some s \<Longrightarrow> total_ok s"
proof (induction arbitrary: sid s rule: reachable.induct)
  case (started ps w)
  then show ?case by simp
next
  case (created svc c cur uid)
  then show ?case
    using createSession_sessions[of env c cur uid svc sid s] createSession_total_ok by blast
next
  case (chatted svc k msg)
  then show ?case
    using chat_sessions[of env k msg svc sid s] by blast
next
  case (outside svc ps w)
  then show ?case by simp
qed

text \<open>
  Claim C1. Right after \<open>createSession\<close> the total of the new session is the sum over
  its cart of price times quantity. Every tool call keeps that equation once it holds,
  and the two handlers that change the cart, \<open>add_product_to_cart\<close> and
  \<open>update_cart_item\<close>, either leave the session as it is or leave it with a total that
  is the sum over the new cart: no handler writes the total without the cart. So the
  equation holds for every session of every state the service can reach.
\<close>

theorem totalAmount_equals_cart_sum:
  "total_ok (fst (createSession env c cur uid svc))
   \<and> (total_ok (session st) \<longrightarrow> total_ok (session (snd (handleToolCall env tool st))))
   \<and> (session (snd (handleToolCall env (add_product_to_cart pid qty) st)) = session st
        \<or> total_ok (session (snd (handleToolCall env (add_product_to_cart pid qty) st))))
   \<and> (session (snd (handleToolCall env (update_cart_item cid n) st)) = session st
        \<or> total_ok (session (snd (handleToolCall env (update_cart_item cid n) st))))
   \<and> (reachable env svc0 \<and> sessions svc0 sid = Some s \<longrightarrow> total_ok s)"
proof (intro conjI)
  show "total_ok (fst (createSession env c cur uid svc))"
    by (rule createSession_total_ok)
  show "reachable env svc0 \<and> sessions svc0 sid = Some s \<longrightarrow> total_ok s"
    using reachable_total_ok by blast
  show "total_ok (session st) \<longrightarrow> total_ok (session (snd (handleToolCall env tool st)))"
    using handleToolCall_step[of st env tool] by (auto simp: session_step_def total_ok_def)
  show "session (snd (handleToolCall env (add_product_to_cart pid qty) st)) = session st
        \<or> total_ok (session (snd (handleToolCall env (add_product_to_cart pid qty) st)))"
    by (auto simp: handleToolCall_snd toolSwitch_def addProductToCart_def total_ok_def
        calculateTotal_sum Let_def split: option.splits prod.splits sum.splits)
  show "session (snd (handleToolCall env (update_cart_item cid n) st)) = session st
        \<or> total_ok (session (snd (handleToolCall env (update_cart_item cid n) st)))"
    by (auto simp: handleToolCall_snd toolSwitch_def updateCartItem_def total_ok_def
        calculateTotal_sum Let_def split: option.splits prod.splits sum.splits)
qed

text \<open>
  The scenario of the specification: a product priced 29900 added once to a cart that
  totals 100000 gives 129900.
\<close>

theorem totalAmount_equals_cart_sum_witness:
  "total_ok (session (demo_state active [widget] []))
   \<and> total_ok (session (snd (handleToolCall (demo_env ''successful'' [])
                  (add_product_to_cart ''prod_1'' None) (demo_state active [widget] []))))
   \<and> totalAmount (session (snd (handleToolCall (demo_env ''successful'' [])
                  (add_product_to_cart ''prod_1'' None) (demo_state active [widget] [])))) = 129900
   \<and> reachable (demo_env ''successful'' [])
        (snd (createSession (demo_env ''successful'' []) [widget] ''THB'' None empty_service))
   \<and> sessions (snd (createSession (demo_env ''successful'' []) [widget] ''THB'' None
                      empty_service)) ''sess_1700000000000_k3f9x2m7q''
       = Some (fst (createSession (demo_env ''successful'' []) [widget] ''THB'' None empty_service))
   \<and> total_ok (fst (createSession (demo_env ''successful'' []) [widget] ''THB'' None
                      empty_service))"
proof -
  have a: "total_ok (session (demo_state active [widget] []))"
    by (simp add: total_ok_def demo_state_def demo_session_def calculateTotal_def widget_def)
  have b: "total_ok (session (snd (handleToolCall (demo_env ''successful'' [])
                  (add_product_to_cart ''prod_1'' None) (demo_state active [widget] []))))"
    using a totalAmount_equals_cart_sum[where env = "demo_env ''successful'' []"
        and st = "demo_state active [widget] []"
        and tool = "add_product_to_cart ''prod_1'' None"]
    by blast
  have c: "totalAmount (session (snd (handleToolCall (demo_env ''successful'' [])
                  (add_product_to_cart ''prod_1'' None) (demo_state active [widget] [])))) = 129900"
    by (simp add: handleToolCall_def toolSwitch_def addProductToCart_def demo_env_def
        demo_platform_def demo_product_def demo_state_def demo_session_def calculateTotal_def
        widget_def)
  let ?E = "demo_env ''successful'' []"
  have r0: "reachable ?E empty_service"
    unfolding empty_service_def by (rule reachable.started)
  have r: "reachable ?E (snd (createSession ?E [widget] ''THB'' None empty_service))"
    using r0 by (rule reachable.created)
  have k: "sessions (snd (createSession ?E [widget] ''THB'' None empty_service))
             ''sess_1700000000000_k3f9x2m7q''
           = Some (fst (createSession ?E [widget] ''THB'' None empty_service))"
    by (simp add: createSession_def generateSessionId_def demo_env_def empty_service_def Let_def)
  have d: "total_ok (fst (createSession ?E [widget] ''THB'' None empty_service))"
    using r k totalAmount_equals_cart_sum[where env = ?E
        and ?svc0.0 = "snd (createSession ?E [widget] ''THB'' None empty_service)"
        and sid = "''sess_1700000000000_k3f9x2m7q''"
        and s = "fst (createSession ?E [widget] ''THB'' None empty_service)"]
    by blast
  from a b c r k d show ?thesis by blast
qed

section \<open>Creating a session\<close>

text \<open>
  Claim C2 as stated fails: \<open>createSession\<close> has no check of the cart and no way to
  fail. It returns a session for the empty cart, for an item with a negative quantity
  and for an item with a negative price.
\<close>

theorem createSession_accepts_invalid_carts:
  "fst (createSession (demo_env ''successful'' []) [] ''THB'' None empty_service) =
     \<lparr> sessionId = ''sess_1700000000000_k3f9x2m7q'', customerId = None, userId = None,
       cart = [], totalAmount = 0, currency = ''THB'', conversationHistory = [],
       paymentMethod = None, status = active, shippingAddressId = None,
       billingAddressId = None, paymentMethodId = None \<rparr>
   \<and> totalAmount (fst (createSession (demo_env ''successful'' [])
        [widget\<lparr> quantity := - 2 \<rparr>] ''THB'' None empty_service)) = - 200000
   \<and> totalAmount (fst (createSession (demo_env ''successful'' [])
        [widget\<lparr> price := - 5 \<rparr>] ''THB'' None empty_service)) = - 5"
  by (simp add: createSession_def generateSessionId_def demo_env_def empty_service_def
      calculateTotal_def widget_def Let_def)

text \<open>
  Claim C2 as amended: for every cart, valid or not, \<open>createSession\<close> returns a session
  that holds the cart, the currency and the user identifier it was given, whose total
  is the sum over the cart of price times quantity, whose status is \<open>active\<close> and
  whose conversation is empty, and it stores that session under its identifier.
\<close>

theorem createSession_total:
  "(case createSession env c cur uid svc of
      (s, svc') \<Rightarrow>
        cart s = c \<and> totalAmount s = (\<Sum>item\<leftarrow>c. price item * quantity item) \<and>
        status s = active \<and> conversationHistory s = [] \<and> currency s = cur \<and>
        userId s = uid \<and> sessions svc' (sessionId s) = Some s)"
  by (simp add: createSession_def calculateTotal_sum Let_def split: prod.splits)

text \<open>The example of the specification: one item of price 50000, twice, totals 100000.\<close>

theorem createSession_total_witness:
  "totalAmount (fst (createSession (demo_env ''successful'' [])
       [widget\<lparr> price := 50000, quantity := 2 \<rparr>] ''THB'' None empty_service)) = 100000"
  using createSession_total[where env = "demo_env ''successful'' []"
      and c = "[widget\<lparr> price := 50000, quantity := 2 \<rparr>]" and cur = "''THB''"
      and uid = None and svc = empty_service]
  by (simp add: widget_def split: prod.splits)

section \<open>Cart handlers\<close>

text \<open>
  Claim C8. Let \<open>i\<close> be the index of the first cart item whose identifier is the
  given one. \<open>update_cart_item\<close> with quantity 0 takes the item at \<open>i\<close> out of the
  cart and leaves every other item in place; with another quantity it sets the
  quantity of the item at \<open>i\<close>; either way the total becomes the sum over the new cart
  and nothing else in the state changes. When no item has the identifier, the answer is
  the not-found text and the state is as before.
\<close>

theorem update_cart_item_effect:
  assumes "handleToolCall env (update_cart_item cid q) st = (r, st')"
  shows
    "(\<forall>i. i < length (cart (session st)) \<and> item_id (cart (session st) ! i) = cid \<and>
          (\<forall>j<i. item_id (cart (session st) ! j) \<noteq> cid) \<longrightarrow>
        (let c = cart (session st);
             c' = (if q = 0 then take i c @ drop (Suc i) c
                   else c[i := (c ! i)\<lparr> quantity := q \<rparr>])
         in st' = st\<lparr> session := (session st)\<lparr> cart := c',
                    totalAmount := (\<Sum>item\<leftarrow>c'. price item * quantity item) \<rparr> \<rparr>))
     \<and> ((\<forall>item \<in> set (cart (session st)). item_id item \<noteq> cid) \<longrightarrow>
          r = ''Cart item with ID '' @ cid @ '' not found'' \<and> st' = st)"
proof (intro conjI allI impI)
  fix i
  assume h: "i < length (cart (session st)) \<and> item_id (cart (session st) ! i) = cid \<and>
          (\<forall>j<i. item_id (cart (session st) ! j) \<noteq> cid)"
  then have f: "findIndex (\<lambda>item. item_id item = cid) (cart (session st)) = Some i"
    by (simp add: findIndex_Some_iff)
  show "let c = cart (session st);
             c' = (if q = 0 then take i c @ drop (Suc i) c
                   else c[i := (c ! i)\<lparr> quantity := q \<rparr>])
         in st' = st\<lparr> session := (session st)\<lparr> cart := c',
                    totalAmount := (\<Sum>item\<leftarrow>c'. price item * quantity item) \<rparr> \<rparr>"
    using assms f
    by (auto simp: handleToolCall_def toolSwitch_def updateCartItem_def calculateTotal_sum Let_def)
next
  assume "\<forall>item \<in> set (cart (session st)). item_id item \<noteq> cid"
  then have f: "findIndex (\<lambda>item. item_id item = cid) (cart (session st)) = None"
    by (simp add: findIndex_None_iff)
  show "r = ''Cart item with ID '' @ cid @ '' not found''"
    using assms f by (auto simp: handleToolCall_def toolSwitch_def updateCartItem_def)
  show "st' = st"
    using assms f by (auto simp: handleToolCall_def toolSwitch_def updateCartItem_def)
qed

text \<open>On a cart of a widget and a gadget: remove the gadget, set its quantity, miss.\<close>

theorem update_cart_item_effect_witness:
  "cart (session (snd (handleToolCall (demo_env ''successful'' []) (update_cart_item ''2'' 0)
        (demo_state active [widget, gadget] [])))) = [widget]
   \<and> totalAmount (session (snd (handleToolCall (demo_env ''successful'' [])
        (update_cart_item ''2'' 0) (demo_state active [widget, gadget] [])))) = 100000
   \<and> cart (session (snd (handleToolCall (demo_env ''successful'' []) (update_cart_item ''2'' 5)
        (demo_state active [widget, gadget] [])))) = [widget, gadget\<lparr> quantity := 5 \<rparr>]
   \<and> handleToolCall (demo_env ''successful'' []) (update_cart_item ''9'' 0)
        (demo_state active [widget, gadget] [])
       = (''Cart item with ID 9 not found'', demo_state active [widget, gadget] [])"
proof -
  let ?E = "demo_env ''successful'' []"
  let ?S = "demo_state active [widget, gadget] []"
  have c: "cart (session ?S) = [widget, gadget]"
    by (simp add: demo_state_def demo_session_def)
  have found: "(1::nat) < length (cart (session ?S)) \<and> item_id (cart (session ?S) ! 1) = ''2'' \<and>
      (\<forall>j<1. item_id (cart (session ?S) ! j) \<noteq> ''2'')"
    unfolding c by (simp add: widget_def gadget_def)
  have absent: "\<forall>item \<in> set (cart (session ?S)). item_id item \<noteq> ''9''"
    unfolding c by (simp add: widget_def gadget_def)
  obtain r0 s0 where h0: "handleToolCall ?E (update_cart_item ''2'' 0) ?S = (r0, s0)"
    by (cases "handleToolCall ?E (update_cart_item ''2'' 0) ?S")
  obtain r5 s5 where h5: "handleToolCall ?E (update_cart_item ''2'' 5) ?S = (r5, s5)"
    by (cases "handleToolCall ?E (update_cart_item ''2'' 5) ?S")
  obtain r9 s9 where h9: "handleToolCall ?E (update_cart_item ''9'' 0) ?S = (r9, s9)"
    by (cases "handleToolCall ?E (update_cart_item ''9'' 0) ?S")
  have t: "price widget * quantity widget = 100000"
    by (simp add: widget_def)
  have a0: "cart (session s0) = [widget] \<and> totalAmount (session s0) = 100000"
    using update_cart_item_effect[OF h0, THEN conjunct1, rule_format, OF found]
    by (simp add: c Let_def t)
  have a5: "cart (session s5) = [widget, gadget\<lparr> quantity := 5 \<rparr>]"
    using update_cart_item_effect[OF h5, THEN conjunct1, rule_format, OF found]
    by (simp add: c Let_def)
  have a9: "r9 = ''Cart item with ID 9 not found'' \<and> s9 = ?S"
    using update_cart_item_effect[OF h9, THEN conjunct2, THEN mp, OF absent] by simp
  show ?thesis using a0 a5 a9 h0 h5 h9 by simp
qed

section \<open>Payment handlers and the status\<close>

text \<open>
  Claim C3. \<open>process_card_payment\<close> creates one charge. A charge that comes back with
  status \<open>successful\<close> sets the session to \<open>completed\<close>, one with status \<open>pending\<close>
  sets it to \<open>pending_payment\<close>; in both cases nothing else in the session changes. A
  charge with any other status leaves the session as it was and the handler returns
  the text \<open>Payment failed: ...\<close>, it does not throw. When the gateway call itself
  is rejected the session is as it was too, and the tool call answers with the text
  \<open>Error: ...\<close>.
\<close>

theorem process_card_payment_outcome:
  assumes "omise_charges_create env (cardChargeParams tok (session st)) (world st) = (out, w)"
    and "handleToolCall env (process_card_payment tok) st = (r, st')"
  shows
    "(\<forall>charge. out = Inr charge \<and> charge_status charge = ''successful'' \<longrightarrow>
        session st' = (session st)\<lparr> status := completed \<rparr> \<and>
        r = ''Payment processed successfully! Charge ID: '' @ charge_id charge
              @ '', Status: successful'')
     \<and> (\<forall>charge. out = Inr charge \<and> charge_status charge = ''pending'' \<longrightarrow>
        session st' = (session st)\<lparr> status := pending_payment \<rparr> \<and>
        r = ''Payment processed successfully! Charge ID: '' @ charge_id charge
              @ '', Status: pending'')
     \<and> (\<forall>charge. out = Inr charge \<and> charge_status charge \<noteq> ''successful'' \<and>
          charge_status charge \<noteq> ''pending'' \<longrightarrow>
        session st' = session st \<and>
        r = ''Payment failed: '' @ or_else (failure_message charge) ''Unknown error'' \<and>
        fst (processCardPayment env tok st) = Inr r)
     \<and> (\<forall>m. out = Inl m \<longrightarrow>
        session st' = session st \<and> r = ''Error: Failed to create charge: '' @ m)"
  using assms
  by (auto simp: handleToolCall_def toolSwitch_def processCardPayment_def createCharge_def Let_def)

text \<open>A gateway that reports each of the three statuses, and one that is down.\<close>

theorem process_card_payment_outcome_witness:
  "status (session (snd (handleToolCall (demo_env ''successful'' [])
      (process_card_payment ''tokn_test_1'') (demo_state active [widget] [])))) = completed
   \<and> status (session (snd (handleToolCall (demo_env ''pending'' [])
      (process_card_payment ''tokn_test_1'') (demo_state active [widget] [])))) = pending_payment
   \<and> status (session (snd (handleToolCall (demo_env ''failed'' [])
      (process_card_payment ''tokn_test_1'') (demo_state active [widget] [])))) = active
   \<and> fst (handleToolCall (demo_env ''failed'' [])
      (process_card_payment ''tokn_test_1'') (demo_state active [widget] []))
       = ''Payment failed: insufficient funds''
   \<and> fst (handleToolCall down_env
      (process_card_payment ''tokn_test_1'') (demo_state active [widget] []))
       = ''Error: Failed to create charge: connection refused''"
proof -
  let ?S = "demo_state active [widget] []"
  let ?p = "cardChargeParams ''tokn_test_1'' (session ?S)"
  have o: "omise_charges_create (demo_env x []) ?p (world ?S) = (Inr (demo_charge x ?p), 1)" for x
    by (simp add: demo_env_def demo_state_def)
  have d: "omise_charges_create down_env ?p (world ?S) = (Inl ''connection refused'', 1)"
    by (simp add: down_env_def demo_state_def)
  have h: "handleToolCall e (process_card_payment ''tokn_test_1'') ?S
      = (fst (handleToolCall e (process_card_payment ''tokn_test_1'') ?S),
         snd (handleToolCall e (process_card_payment ''tokn_test_1'') ?S))" for e
    by simp
  have s: "status (session ?S) = active"
    by (simp add: demo_state_def demo_session_def)
  show ?thesis
    using process_card_payment_outcome[OF o[of "''successful''"] h]
      process_card_payment_outcome[OF o[of "''pending''"] h]
      process_card_payment_outcome[OF o[of "''failed''"] h]
      process_card_payment_outcome[OF d h] s
    by (simp add: demo_charge_def or_else_def)
qed

text \<open>
  Claim C4. When the source and the charge are created, \<open>create_promptpay_payment\<close> and
  \<open>create_internet_banking_payment\<close> set the status to \<open>pending_payment\<close> and change
  nothing else in the session, whatever status the charge carries.
\<close>

theorem redirect_payments_set_pending:
  "(omise_sources_create env (promptPaySourceParams (session st)) (world st) = (Inr src, w1) \<and>
    omise_charges_create env (sourceChargeParams src (session st)) w1 = (Inr charge, w2) \<longrightarrow>
      session (snd (handleToolCall env create_promptpay_payment st))
        = (session st)\<lparr> status := pending_payment \<rparr>)
   \<and> (omise_sources_create env (bankSourceParams bank (session st)) (world st) = (Inr src', w1') \<and>
    omise_charges_create env (sourceChargeParams src' (session st)) w1' = (Inr charge', w2') \<longrightarrow>
      session (snd (handleToolCall env (create_internet_banking_payment bank) st))
        = (session st)\<lparr> status := pending_payment \<rparr>)"
  by (auto simp: handleToolCall_def toolSwitch_def createPromptPayPayment_def
      createInternetBankingPayment_def createCharge_def createSource_def Let_def)

text \<open>The gateway reports the charge as \<open>successful\<close>; the session is pending all the same.\<close>

theorem redirect_payments_set_pending_witness:
  "status (session (snd (handleToolCall (demo_env ''successful'' [])
      create_promptpay_payment (demo_state active [widget] [])))) = pending_payment
   \<and> status (session (snd (handleToolCall (demo_env ''successful'' [])
      (create_internet_banking_payment ''scb'') (demo_state active [widget] [])))) = pending_payment"
proof -
  let ?E = "demo_env ''successful'' []"
  let ?S = "demo_state active [widget] []"
  let ?src = "\<lparr> source_id = ''src_test_1'', scannable_download_uri = None \<rparr>"
  have a: "omise_sources_create ?E p (world ?S) = (Inr ?src, 1)" for p
    by (simp add: demo_env_def demo_state_def)
  have b: "omise_charges_create ?E p 1 = (Inr (demo_charge ''successful'' p), 2)" for p
    by (simp add: demo_env_def)
  show ?thesis
    using redirect_payments_set_pending[where env = ?E and st = ?S and bank = "''scb''"
        and src = ?src and src' = ?src and ?w1.0 = 1 and w1' = 1 and ?w2.0 = 2 and w2' = 2
        and charge = "demo_charge ''successful'' (sourceChargeParams ?src (session ?S))"
        and charge' = "demo_charge ''successful'' (sourceChargeParams ?src (session ?S))"]
      a b
    by simp
qed

text \<open>
  Claim C5 as stated fails: the payment handlers write the status without reading it.
  A \<open>completed\<close> session becomes \<open>pending_payment\<close> by \<open>create_promptpay_payment\<close>, and a
  \<open>cancelled\<close> one becomes \<open>completed\<close> by a successful \<open>process_card_payment\<close>.
\<close>

theorem finished_session_reopened:
  "status (session (demo_state completed [widget] [])) = completed
   \<and> status (session (snd (handleToolCall (demo_env ''pending'' [])
        create_promptpay_payment (demo_state completed [widget] [])))) = pending_payment
   \<and> status (session (demo_state cancelled [widget] [])) = cancelled
   \<and> status (session (snd (handleToolCall (demo_env ''successful'' [])
        (process_card_payment ''tokn_test_1'') (demo_state cancelled [widget] [])))) = completed"
  by (simp add: handleToolCall_def toolSwitch_def createPromptPayPayment_def
      processCardPayment_def createSource_def createCharge_def demo_env_def demo_state_def
      demo_session_def demo_charge_def Let_def)

text \<open>
  Claim C5 as amended: a tool call other than the four payment tools leaves the status
  as it was; a payment tool leaves it or sets it to \<open>completed\<close> or \<open>pending_payment\<close>.
  So no tool call sets a \<open>completed\<close> or \<open>cancelled\<close> session back to \<open>active\<close>.
\<close>

theorem status_after_tool_call:
  "(\<not> payment_tool tool \<longrightarrow>
      status (session (snd (handleToolCall env tool st))) = status (session st))
   \<and> (status (session (snd (handleToolCall env tool st))) = status (session st)
      \<or> status (session (snd (handleToolCall env tool st))) = completed
      \<or> status (session (snd (handleToolCall env tool st))) = pending_payment)
   \<and> (status (session st) = completed \<or> status (session st) = cancelled \<longrightarrow>
      status (session (snd (handleToolCall env tool st))) \<noteq> active)"
  using handleToolCall_step[of st env tool] toolSwitch_status[of tool env st]
  by (auto simp: session_step_def handleToolCall_snd)

text \<open>A status check and a PromptPay payment on a completed session.\<close>

theorem status_after_tool_call_witness:
  "\<not> payment_tool (check_payment_status ''chrg_test_1'')
   \<and> status (session (demo_state completed [widget] [])) = completed
   \<and> status (session (snd (handleToolCall (demo_env ''pending'' [])
        (check_payment_status ''chrg_test_1'') (demo_state completed [widget] [])))) = completed
   \<and> status (session (snd (handleToolCall (demo_env ''pending'' [])
        create_promptpay_payment (demo_state completed [widget] [])))) \<noteq> active"
proof -
  have a: "\<not> payment_tool (check_payment_status ''chrg_test_1'')"
    by (simp add: payment_tool_def)
  have b: "status (session (demo_state completed [widget] [])) = completed"
    by (simp add: demo_state_def demo_session_def)
  show ?thesis
    using a b
      status_after_tool_call[where tool = "check_payment_status ''chrg_test_1''"
        and env = "demo_env ''pending'' []" and st = "demo_state completed [widget] []"]
      status_after_tool_call[where tool = create_promptpay_payment
        and env = "demo_env ''pending'' []" and st = "demo_state completed [widget] []"]
    by simp
qed

section \<open>The chat turn\<close>

lemma processContent_history:
  "conversationHistory (session (snd (processContent env blocks acc st)))
     = conversationHistory (session st)"
  using processContent_step[of st env blocks acc] by (simp add: session_step_def)

lemma processContent_append:
  "processContent env (xs @ ys) acc st =
     (case processContent env xs acc st of (acc', st') \<Rightarrow> processContent env ys acc' st')"
proof (induction xs arbitrary: acc st)
  case Nil
  then show ?case by simp
next
  case (Cons b xs)
  then show ?case by (cases b) (auto split: prod.splits)
qed

text \<open>
  Claim C6. For a known session, \<open>chat\<close> calls the model on the session with the user
  message already appended. When that call fails, \<open>chat\<close> fails with the same error and
  the stored session holds the old conversation followed by the user message. When it
  answers, \<open>chat\<close> returns the reply and the stored session holds the old conversation
  followed by the user message and one assistant message with the reply, whatever the
  tool calls of the turn did. Other sessions are not touched.
\<close>

theorem chat_history:
  assumes "sessions svc sid = Some s"
    and "anthropic_messages_create env
           (s\<lparr> conversationHistory :=
                 conversationHistory s @ [\<lparr> role = User, content = msg \<rparr>] \<rparr>)
           (svc_world svc) = (out, w)"
    and "chat env sid msg svc = (res, svc')"
  shows
    "(\<forall>e. out = Inl e \<longrightarrow>
        res = Inl e \<and>
        (\<exists>s'. sessions svc' sid = Some s' \<and>
              conversationHistory s' =
                conversationHistory s @ [\<lparr> role = User, content = msg \<rparr>]))
     \<and> (\<forall>blocks. out = Inr blocks \<longrightarrow>
        (\<exists>reply s'. res = Inr reply \<and> sessions svc' sid = Some s' \<and>
              reply = fst (processContent env blocks []
                        \<lparr> session = s\<lparr> conversationHistory :=
                                      conversationHistory s @ [\<lparr> role = User, content = msg \<rparr>] \<rparr>,
                          profiles = svc_profiles svc, world = w \<rparr>) \<and>
              conversationHistory s' =
                conversationHistory s @ [\<lparr> role = User, content = msg \<rparr>,
                                         \<lparr> role = Assistant, content = reply \<rparr>]))
     \<and> (\<forall>other. other \<noteq> sid \<longrightarrow> sessions svc' other = sessions svc other)"
proof -
  let ?s1 = "s\<lparr> conversationHistory :=
                 conversationHistory s @ [\<lparr> role = User, content = msg \<rparr>] \<rparr>"
  show ?thesis
  proof (cases out)
    case (Inl e)
    then show ?thesis
      using assms by (auto simp: chat_def Let_def)
  next
    case (Inr blocks)
    let ?st0 = "\<lparr> session = ?s1, profiles = svc_profiles svc, world = w \<rparr>"
    obtain reply st where p: "processContent env blocks [] ?st0 = (reply, st)"
      by (cases "processContent env blocks [] ?st0")
    have h: "conversationHistory (session st)
             = conversationHistory s @ [\<lparr> role = User, content = msg \<rparr>]"
      using processContent_history[of env blocks "[]" ?st0] p by simp
    show ?thesis
      using assms Inr p h by (auto simp: chat_def Let_def)
  qed
qed

text \<open>A model that is down, and a turn whose tool call throws.\<close>

theorem chat_history_witness:
  "map_option conversationHistory
      (sessions (snd (chat down_env ''sess_1'' ''hi'' (demo_service active [widget]))) ''sess_1'')
     = Some [\<lparr> role = User, content = ''hi'' \<rparr>]
   \<and> fst (chat down_env ''sess_1'' ''hi'' (demo_service active [widget]))
       = Inl (Error ''overloaded'')
   \<and> map_option conversationHistory
      (sessions (snd (chat (demo_env ''successful'' demo_reply) ''sess_1'' ''hi''
                        (demo_service active [widget]))) ''sess_1'')
     = Some [\<lparr> role = User, content = ''hi'' \<rparr>,
             \<lparr> role = Assistant,
               content = ''Checking.'' @ nl @ nl
                 @ ''Error: Failed to retrieve charge: charge was not found Done.'' \<rparr>]
   \<and> sessions (snd (chat (demo_env ''successful'' demo_reply) ''sess_1'' ''hi''
                        (demo_service active [widget]))) ''sess_2'' = None"
proof -
  let ?V = "demo_service active [widget]"
  let ?E = "demo_env ''successful'' demo_reply"
  let ?s1 = "(demo_session active [widget])\<lparr> conversationHistory :=
               conversationHistory (demo_session active [widget])
                 @ [\<lparr> role = User, content = ''hi'' \<rparr>] \<rparr>"
  have a: "sessions ?V ''sess_1'' = Some (demo_session active [widget])"
    by (simp add: demo_service_def)
  have h0: "conversationHistory (demo_session active [widget]) = []"
    by (simp add: demo_session_def)
  have b1: "anthropic_messages_create down_env ?s1 (svc_world ?V) = (Inl (Error ''overloaded''), 1)"
    by (simp add: down_env_def demo_service_def)
  have b2: "anthropic_messages_create ?E ?s1 (svc_world ?V) = (Inr demo_reply, 1)"
    by (simp add: demo_env_def demo_service_def)
  have c: "chat e ''sess_1'' ''hi'' ?V
             = (fst (chat e ''sess_1'' ''hi'' ?V), snd (chat e ''sess_1'' ''hi'' ?V))" for e
    by simp
  have r: "fst (chat ?E ''sess_1'' ''hi'' ?V)
      = Inr (''Checking.'' @ nl @ nl
              @ ''Error: Failed to retrieve charge: charge was not found Done.'')"
    by (simp add: chat_def demo_service_def demo_env_def demo_reply_def handleToolCall_def
        toolSwitch_def checkPaymentStatus_def getCharge_def Let_def)
  from chat_history[OF a b1 c] have k1:
    "map_option conversationHistory
      (sessions (snd (chat down_env ''sess_1'' ''hi'' ?V)) ''sess_1'')
       = Some [\<lparr> role = User, content = ''hi'' \<rparr>]
     \<and> fst (chat down_env ''sess_1'' ''hi'' ?V) = Inl (Error ''overloaded'')"
    by (auto simp: h0)
  from chat_history[OF a b2 c] r have k2:
    "map_option conversationHistory (sessions (snd (chat ?E ''sess_1'' ''hi'' ?V)) ''sess_1'')
     = Some [\<lparr> role = User, content = ''hi'' \<rparr>,
             \<lparr> role = Assistant,
               content = ''Checking.'' @ nl @ nl
                 @ ''Error: Failed to retrieve charge: charge was not found Done.'' \<rparr>]"
    by (auto simp: h0)
  have o: "''sess_2'' \<noteq> ''sess_1''" by simp
  from chat_history[OF a b2 c] o have k3:
    "sessions (snd (chat ?E ''sess_1'' ''hi'' ?V)) ''sess_2'' = None"
    by (simp add: demo_service_def)
  from k1 k2 k3 show ?thesis by blast
qed

lemma processContent_acc:
  "processContent env blocks acc st =
     (acc @ fst (processContent env blocks [] st), snd (processContent env blocks [] st))"
proof (induction blocks arbitrary: acc st)
  case Nil
  then show ?case by simp
next
  case (Cons b blocks)
  show ?case
  proof (cases b)
    case (Text_block t)
    then show ?thesis
      using Cons.IH[of "acc @ t" st] Cons.IH[of t st] by simp
  next
    case (Tool_use tool)
    obtain r st' where h: "handleToolCall env tool st = (r, st')"
      by (cases "handleToolCall env tool st")
    then show ?thesis
      using Tool_use Cons.IH[of "acc @ nl @ nl @ r" st'] Cons.IH[of "nl @ nl @ r" st'] by simp
  qed
qed

text \<open>
  Claim C7. When the handler of a tool-call block throws an error with message \<open>m\<close>,
  \<open>handleToolCall\<close> answers \<open>Error: m\<close>, the loop adds that text to the reply where the
  result would stand, and goes on with the remaining blocks from the state the handler
  left. So when the model's reply is the blocks \<open>pre\<close>, the failing tool call and the
  blocks \<open>rest\<close>, \<open>chat\<close> does not throw: it returns the text built from \<open>pre\<close>, then
  a blank line and \<open>Error: m\<close>, then the text built from \<open>rest\<close>; it stores that reply
  as the assistant message, and the state it leaves is the one after \<open>rest\<close> has run.
  Whatever the blocks, once the session is known and the model has answered \<open>chat\<close>
  returns a reply.
\<close>

theorem tool_error_is_folded:
  assumes "processContent env pre acc st = (acc1, st1)"
    and "toolSwitch env tool st1 = (Inl (Error m), st2)"
  shows
    "handleToolCall env tool st1 = (''Error: '' @ m, st2)
     \<and> processContent env (pre @ Tool_use tool # rest) acc st
         = processContent env rest (acc1 @ nl @ nl @ ''Error: '' @ m) st2
     \<and> fst (processContent env (pre @ Tool_use tool # rest) acc st)
         = acc1 @ nl @ nl @ ''Error: '' @ m @ fst (processContent env rest [] st2)
     \<and> (sessions svc sid = Some s \<and>
         anthropic_messages_create env
           (s\<lparr> conversationHistory :=
                 conversationHistory s @ [\<lparr> role = User, content = msg \<rparr>] \<rparr>)
           (svc_world svc) = (Inr (pre @ Tool_use tool # rest), w) \<and>
         acc = [] \<and>
         st = \<lparr> session = s\<lparr> conversationHistory :=
                               conversationHistory s @ [\<lparr> role = User, content = msg \<rparr>] \<rparr>,
                 profiles = svc_profiles svc, world = w \<rparr>
        \<longrightarrow>
          fst (chat env sid msg svc)
            = Inr (acc1 @ nl @ nl @ ''Error: '' @ m @ fst (processContent env rest [] st2)) \<and>
          sessions (snd (chat env sid msg svc)) sid
            = Some ((session (snd (processContent env rest [] st2)))
                \<lparr> conversationHistory :=
                    conversationHistory s @
                      [\<lparr> role = User, content = msg \<rparr>,
                       \<lparr> role = Assistant,
                         content = acc1 @ nl @ nl @ ''Error: '' @ m
                                     @ fst (processContent env rest [] st2) \<rparr>] \<rparr>) \<and>
          svc_profiles (snd (chat env sid msg svc))
            = profiles (snd (processContent env rest [] st2)) \<and>
          svc_world (snd (chat env sid msg svc))
            = world (snd (processContent env rest [] st2)))
     \<and> (sessions svc sid = Some s \<and>
         anthropic_messages_create env
           (s\<lparr> conversationHistory :=
                 conversationHistory s @ [\<lparr> role = User, content = msg \<rparr>] \<rparr>)
           (svc_world svc) = (Inr blocks, w)
        \<longrightarrow> (\<exists>reply svc'. chat env sid msg svc = (Inr reply, svc')))"
proof -
  let ?s1 = "s\<lparr> conversationHistory :=
                 conversationHistory s @ [\<lparr> role = User, content = msg \<rparr>] \<rparr>"
  let ?reply = "acc1 @ nl @ nl @ ''Error: '' @ m @ fst (processContent env rest [] st2)"
  let ?stF = "snd (processContent env rest [] st2)"
  have a: "handleToolCall env tool st1 = (''Error: '' @ m, st2)"
    using assms(2) by (simp add: handleToolCall_def)
  have b: "processContent env (pre @ Tool_use tool # rest) acc st
         = processContent env rest (acc1 @ nl @ nl @ ''Error: '' @ m) st2"
    using assms(1) a by (simp add: processContent_append)
  have c: "processContent env (pre @ Tool_use tool # rest) acc st = (?reply, ?stF)"
    using b processContent_acc[of env rest "acc1 @ nl @ nl @ ''Error: '' @ m" st2] by simp
  have d: "fst (chat env sid msg svc) = Inr ?reply \<and>
          sessions (snd (chat env sid msg svc)) sid
            = Some ((session ?stF)\<lparr> conversationHistory :=
                    conversationHistory s @
                      [\<lparr> role = User, content = msg \<rparr>,
                       \<lparr> role = Assistant, content = ?reply \<rparr>] \<rparr>) \<and>
          svc_profiles (snd (chat env sid msg svc)) = profiles ?stF \<and>
          svc_world (snd (chat env sid msg svc)) = world ?stF"
    if k: "sessions svc sid = Some s"
      "anthropic_messages_create env ?s1 (svc_world svc) = (Inr (pre @ Tool_use tool # rest), w)"
      "acc = []" "st = \<lparr> session = ?s1, profiles = svc_profiles svc, world = w \<rparr>"
  proof -
    have p: "processContent env (pre @ Tool_use tool # rest) []
               \<lparr> session = ?s1, profiles = svc_profiles svc, world = w \<rparr> = (?reply, ?stF)"
      using c k(3,4) by simp
    have h: "conversationHistory (session ?stF)
               = conversationHistory s @ [\<lparr> role = User, content = msg \<rparr>]"
      using processContent_history[of env "pre @ Tool_use tool # rest" "[]"
          "\<lparr> session = ?s1, profiles = svc_profiles svc, world = w \<rparr>"] p
      by simp
    show ?thesis
      using k(1,2) p h by (simp add: chat_def Let_def)
  qed
  have e: "sessions svc sid = Some s \<and>
         anthropic_messages_create env ?s1 (svc_world svc) = (Inr blocks, w)
        \<longrightarrow> (\<exists>reply svc'. chat env sid msg svc = (Inr reply, svc'))"
    by (auto simp: chat_def Let_def split: prod.splits)
  have c': "fst (processContent env (pre @ Tool_use tool # rest) acc st) = ?reply"
    using c by simp
  from a b c' d e show ?thesis by blast
qed

text \<open>A status check that the gateway rejects, between two pieces of text.\<close>

theorem tool_error_is_folded_witness:
  "fst (chat (demo_env ''successful'' demo_reply) ''sess_1'' ''hi'' (demo_service active [widget]))
     = Inr (''Checking.'' @ nl @ nl
              @ ''Error: Failed to retrieve charge: charge was not found Done.'')
   \<and> map_option conversationHistory
        (sessions (snd (chat (demo_env ''successful'' demo_reply) ''sess_1'' ''hi''
                          (demo_service active [widget]))) ''sess_1'')
     = Some [\<lparr> role = User, content = ''hi'' \<rparr>,
             \<lparr> role = Assistant,
               content = ''Checking.'' @ nl @ nl
                 @ ''Error: Failed to retrieve charge: charge was not found Done.'' \<rparr>]
   \<and> svc_world (snd (chat (demo_env ''successful'' demo_reply) ''sess_1'' ''hi''
                          (demo_service active [widget]))) = 2
   \<and> handleToolCall (demo_env ''successful'' demo_reply) (check_payment_status ''chrg_test_9'')
        (demo_state active [widget] [])
      = (''Error: Failed to retrieve charge: charge was not found'',
         (demo_state active [widget] [])\<lparr> world := 1 \<rparr>)"
proof -
  let ?E = "demo_env ''successful'' demo_reply"
  let ?V = "demo_service active [widget]"
  let ?s = "demo_session active [widget]"
  let ?s1 = "?s\<lparr> conversationHistory :=
                 conversationHistory ?s @ [\<lparr> role = User, content = ''hi'' \<rparr>] \<rparr>"
  let ?st = "\<lparr> session = ?s1, profiles = svc_profiles ?V, world = 1 \<rparr>"
  let ?tool = "check_payment_status ''chrg_test_9''"
  let ?m = "''Failed to retrieve charge: charge was not found''"
  let ?S = "demo_state active [widget] []"
  have a: "processContent ?E [Text_block ''Checking.''] [] ?st = (''Checking.'', ?st)"
    by simp
  have b: "toolSwitch ?E ?tool ?st = (Inl (Error ?m), ?st\<lparr> world := 2 \<rparr>)"
    by (simp add: toolSwitch_def checkPaymentStatus_def getCharge_def demo_env_def)
  have k: "sessions ?V ''sess_1'' = Some ?s \<and>
      anthropic_messages_create ?E ?s1 (svc_world ?V)
        = (Inr ([Text_block ''Checking.''] @ Tool_use ?tool # [Text_block '' Done.'']), 1) \<and>
      ([]::string) = [] \<and>
      ?st = \<lparr> session = ?s1, profiles = svc_profiles ?V, world = 1 \<rparr>"
    by (simp add: demo_service_def demo_env_def demo_reply_def)
  note t = tool_error_is_folded[OF a b, where rest = "[Text_block '' Done.'']"
      and svc = ?V and sid = "''sess_1''" and s = ?s and msg = "''hi''" and w = 1]
  note u = t[THEN conjunct2, THEN conjunct2, THEN conjunct2, THEN conjunct1, THEN mp, OF k]
  have h0: "conversationHistory ?s = []"
    by (simp add: demo_session_def)
  have p: "fst (chat ?E ''sess_1'' ''hi'' ?V)
             = Inr (''Checking.'' @ nl @ nl
                      @ ''Error: Failed to retrieve charge: charge was not found Done.'')"
    using u by simp
  have q: "map_option conversationHistory (sessions (snd (chat ?E ''sess_1'' ''hi'' ?V)) ''sess_1'')
     = Some [\<lparr> role = User, content = ''hi'' \<rparr>,
             \<lparr> role = Assistant,
               content = ''Checking.'' @ nl @ nl
                 @ ''Error: Failed to retrieve charge: charge was not found Done.'' \<rparr>]"
    using u by (simp add: h0)
  have r: "svc_world (snd (chat ?E ''sess_1'' ''hi'' ?V)) = 2"
    using u by simp
  have a': "processContent ?E [] [] ?S = ([], ?S)"
    by simp
  have b': "toolSwitch ?E ?tool ?S = (Inl (Error ?m), ?S\<lparr> world := 1 \<rparr>)"
    by (simp add: toolSwitch_def checkPaymentStatus_def getCharge_def demo_env_def demo_state_def)
  have z: "handleToolCall ?E ?tool ?S = (''Error: '' @ ?m, ?S\<lparr> world := 1 \<rparr>)"
    using tool_error_is_folded[OF a' b', THEN conjunct1] .
  from p q r z show ?thesis by simp
qed

section \<open>Quick checkout\<close>

lemma find_or_first_no_match:
  "\<forall>x \<in> set (m # ms). \<not> P x \<Longrightarrow> find_or_first P (m # ms) = Some m"
proof -
  assume "\<forall>x \<in> set (m # ms). \<not> P x"
  then have "List.find P (m # ms) = None"
    by (simp add: find_None_iff)
  then show ?thesis by (simp add: find_or_first_def)
qed

lemma quickCheckoutWith_result:
  "quickCheckoutWith env uid pm st = (Inr r, st') \<Longrightarrow>
     r = ''Saved payment method is incomplete or invalid.'' \<or> (\<exists>x. r = ''Quick Checkout:'' @ nl @ x)"
  by (auto simp: quickCheckoutWith_def split: option.splits prod.splits sum.splits if_splits)

lemma saved_state_eq:
  "saved_state =
     \<lparr> session = (demo_session active [widget])\<lparr> paymentMethodId := Some ''pm_1700000000000_2m7qpz'' \<rparr>,
       profiles = [''user_1'' \<mapsto>
          demo_profile [(demo_method promptpay False)\<lparr> pm_id := ''pm_1700000000000_2m7qpz'' \<rparr>]],
       world = 0 \<rparr>"
  by (simp add: saved_state_def handleToolCall_def toolSwitch_def savePaymentMethod_def
      addPaymentMethod_def toPaymentMethodParams_def newId_def getProfile_def
      promptpay_input_def demo_env_def demo_state_def demo_session_def demo_profile_def
      demo_method_def Let_def)

text \<open>
  Claim C9 as stated fails. After \<open>save_payment_method\<close> has saved one PromptPay method
  that is not marked as the default, the profile has no default payment method, yet
  \<open>process_quick_checkout\<close> pays with that method and the session becomes
  \<open>pending_payment\<close>.
\<close>

theorem quick_checkout_charges_unflagged_method:
  "map_option (map pm_isDefault \<circ> paymentMethods) (profiles saved_state ''user_1'') = Some [False]
   \<and> userId (session saved_state) = Some ''user_1''
   \<and> status (session saved_state) = active
   \<and> handleToolCall (demo_env ''pending'' []) (process_quick_checkout None) saved_state
      = (''Quick Checkout:'' @ nl @ ''PromptPay QR code generated! Scan URL: ''
           @ ''https://pay.example/authorize'' @ nl @ ''Charge ID: chrg_test_1'',
         saved_state\<lparr> session := (session saved_state)\<lparr> status := pending_payment \<rparr>,
                       world := 2 \<rparr>)"
  by (simp add: saved_state_eq handleToolCall_def toolSwitch_def processQuickCheckout_def
      getQuickCheckoutData_def getDefaultPaymentMethod_def getDefaultShippingAddress_def
      getDefaultBillingAddress_def getProfile_def find_or_first_def quickCheckoutWith_def
      payWithSavedMethod_def createPromptPayPayment_def createSource_def createCharge_def
      promptPaySourceParams_def sourceChargeParams_def
      demo_env_def demo_session_def demo_profile_def demo_method_def
      demo_charge_def or_else_def show_opt_def truthy_def Let_def)

text \<open>
  Claim C9 as amended: for a session with a user identifier whose profile is missing or
  has no saved payment method at all, \<open>process_quick_checkout\<close> answers that no saved
  payment method was found (or, where the profile service is not configured, that it
  is not available) and changes nothing, the status included.
\<close>

theorem quick_checkout_without_saved_method:
  assumes "userId (session st) = Some uid" and "uid \<noteq> []"
    and "\<forall>p. profiles st uid = Some p \<longrightarrow> paymentMethods p = []"
  shows "handleToolCall env (process_quick_checkout u) st =
           ((if userProfileService env
             then ''No saved payment method found. Please add a payment method first.''
             else ''User profile service is not available''), st)"
  using assms
  by (auto simp: handleToolCall_def toolSwitch_def processQuickCheckout_def
      getQuickCheckoutData_def getDefaultPaymentMethod_def getProfile_def find_or_first_def
      split: option.splits)

text \<open>A profile without payment methods, with and without the profile service.\<close>

theorem quick_checkout_without_saved_method_witness:
  "handleToolCall (demo_env ''successful'' []) (process_quick_checkout None)
      (demo_state active [widget] [])
     = (''No saved payment method found. Please add a payment method first.'',
        demo_state active [widget] [])
   \<and> handleToolCall down_env (process_quick_checkout None) (demo_state active [widget] [])
     = (''User profile service is not available'', demo_state active [widget] [])"
proof -
  let ?S = "demo_state active [widget] []"
  have a: "userId (session ?S) = Some ''user_1''"
    by (simp add: demo_state_def demo_session_def)
  have b: "''user_1'' \<noteq> []" by simp
  have c: "\<forall>p. profiles ?S ''user_1'' = Some p \<longrightarrow> paymentMethods p = []"
    by (simp add: demo_state_def demo_profile_def)
  show ?thesis
    using quick_checkout_without_saved_method[OF a b c, of "demo_env ''successful'' []" None]
      quick_checkout_without_saved_method[OF a b c, of down_env None]
    by (simp add: demo_env_def down_env_def)
qed

lemma card_saved_state_eq:
  "card_saved_state =
     \<lparr> session = (demo_session active [widget])\<lparr> paymentMethodId := Some ''pm_1700000000000_2m7qpz'' \<rparr>,
       profiles = [''user_1'' \<mapsto>
          demo_profile [(demo_method card False)\<lparr> pm_id := ''pm_1700000000000_2m7qpz'',
              pm_cardBrand := Some ''Visa'', pm_cardLastDigits := Some ''4242'' \<rparr>]],
       world = 0 \<rparr>"
  by (simp add: card_saved_state_def handleToolCall_def toolSwitch_def savePaymentMethod_def
      addPaymentMethod_def toPaymentMethodParams_def newId_def getProfile_def
      card_input_def demo_env_def demo_state_def demo_session_def demo_profile_def
      demo_method_def Let_def)

lemma recordCheckout_world: "world (snd (recordCheckout u n st)) = world st"
  by (auto simp: recordCheckout_def split: option.splits)

lemma quickCheckoutWith_paid:
  assumes "payWithSavedMethod env pm st = Some (r, st1)"
  shows "session (snd (quickCheckoutWith env uid pm st)) = session st1
         \<and> world (snd (quickCheckoutWith env uid pm st)) = world st1"
  using assms recordCheckout_same[of uid "totalAmount (session st1)" st1]
    recordCheckout_world[of uid "totalAmount (session st1)" st1]
  by (cases r) (auto simp: quickCheckoutWith_def split: prod.splits sum.splits)

lemma processCardPayment_effect:
  assumes "omise_charges_create env (cardChargeParams tok (session st)) (world st) = (out, w)"
  shows "world (snd (processCardPayment env tok st)) = w
     \<and> session (snd (processCardPayment env tok st))
         = (case out of
              Inl e \<Rightarrow> session st
            | Inr charge \<Rightarrow>
                if charge_status charge = ''successful'' then (session st)\<lparr> status := completed \<rparr>
                else if charge_status charge = ''pending''
                  then (session st)\<lparr> status := pending_payment \<rparr>
                else session st)"
  using assms
  by (auto simp: processCardPayment_def createCharge_def Let_def split: sum.splits)

lemma createPromptPayPayment_effect:
  assumes "omise_sources_create env (promptPaySourceParams (session st)) (world st) = (o1, w1)"
  shows "case o1 of
           Inl e \<Rightarrow> world (snd (createPromptPayPayment env st)) = w1 \<and>
                    session (snd (createPromptPayPayment env st)) = session st
         | Inr src \<Rightarrow>
             (\<forall>o2 w2. omise_charges_create env (sourceChargeParams src (session st)) w1 = (o2, w2)
                \<longrightarrow> world (snd (createPromptPayPayment env st)) = w2 \<and>
                    session (snd (createPromptPayPayment env st))
                      = (case o2 of Inl e \<Rightarrow> session st
                         | Inr charge \<Rightarrow> (session st)\<lparr> status := pending_payment \<rparr>))"
  using assms
  by (auto simp: createPromptPayPayment_def createCharge_def createSource_def Let_def
      split: sum.splits)

lemma createInternetBankingPayment_effect:
  assumes "omise_sources_create env (bankSourceParams code (session st)) (world st) = (o1, w1)"
  shows "case o1 of
           Inl e \<Rightarrow> world (snd (createInternetBankingPayment env code st)) = w1 \<and>
                    session (snd (createInternetBankingPayment env code st)) = session st
         | Inr src \<Rightarrow>
             (\<forall>o2 w2. omise_charges_create env (sourceChargeParams src (session st)) w1 = (o2, w2)
                \<longrightarrow> world (snd (createInternetBankingPayment env code st)) = w2 \<and>
                    session (snd (createInternetBankingPayment env code st))
                      = (case o2 of Inl e \<Rightarrow> session st
                         | Inr charge \<Rightarrow> (session st)\<lparr> status := pending_payment \<rparr>))"
  using assms
  by (auto simp: createInternetBankingPayment_def createCharge_def createSource_def Let_def
      split: sum.splits)

lemma quickCheckoutWith_card:
  assumes "pm_type m = card" and "pm_cardToken m = Some tok" and "tok \<noteq> []"
  shows "session (snd (quickCheckoutWith env uid m st)) = session (snd (processCardPayment env tok st))
       \<and> world (snd (quickCheckoutWith env uid m st)) = world (snd (processCardPayment env tok st))"
proof -
  have "payWithSavedMethod env m st
          = Some (fst (processCardPayment env tok st), snd (processCardPayment env tok st))"
    using assms by (simp add: payWithSavedMethod_def truthy_def or_else_def)
  then show ?thesis by (rule quickCheckoutWith_paid)
qed

lemma quickCheckoutWith_promptpay:
  assumes "pm_type m = promptpay"
  shows "session (snd (quickCheckoutWith env uid m st)) = session (snd (createPromptPayPayment env st))
       \<and> world (snd (quickCheckoutWith env uid m st)) = world (snd (createPromptPayPayment env st))"
proof -
  have "payWithSavedMethod env m st
          = Some (fst (createPromptPayPayment env st), snd (createPromptPayPayment env st))"
    using assms by (simp add: payWithSavedMethod_def)
  then show ?thesis by (rule quickCheckoutWith_paid)
qed

lemma quickCheckoutWith_bank:
  assumes "pm_type m = internet_banking" and "pm_bankCode m = Some code" and "code \<noteq> []"
  shows "session (snd (quickCheckoutWith env uid m st))
           = session (snd (createInternetBankingPayment env code st))
       \<and> world (snd (quickCheckoutWith env uid m st))
           = world (snd (createInternetBankingPayment env code st))"
proof -
  have "payWithSavedMethod env m st
          = Some (fst (createInternetBankingPayment env code st),
                  snd (createInternetBankingPayment env code st))"
    using assms by (simp add: payWithSavedMethod_def truthy_def or_else_def)
  then show ?thesis by (rule quickCheckoutWith_paid)
qed

lemma quickCheckoutWith_incomplete:
  assumes "\<not> (pm_type m = card \<and> truthy (pm_cardToken m))" and "pm_type m \<noteq> promptpay"
    and "\<not> (pm_type m = internet_banking \<and> truthy (pm_bankCode m))"
  shows "quickCheckoutWith env uid m st = (Inr ''Saved payment method is incomplete or invalid.'', st)"
  using assms by (auto simp: quickCheckoutWith_def payWithSavedMethod_def)

text \<open>
  Claim C10 as stated fails. After \<open>save_payment_method\<close> has saved one card without a
  token, not marked as the default, \<open>getDefaultPaymentMethod\<close> returns that card, yet
  \<open>process_quick_checkout\<close> charges nothing: it answers that the saved method is
  incomplete, and the state, the world with its count of gateway calls included, is as
  before.
\<close>

theorem quick_checkout_skips_incomplete_method:
  "map_option (map pm_isDefault \<circ> paymentMethods) (profiles card_saved_state ''user_1'')
     = Some [False]
   \<and> map_option pm_type (getDefaultPaymentMethod ''user_1'' card_saved_state) = Some card
   \<and> userId (session card_saved_state) = Some ''user_1''
   \<and> world card_saved_state = 0
   \<and> handleToolCall (demo_env ''successful'' []) (process_quick_checkout None) card_saved_state
      = (''Saved payment method is incomplete or invalid.'', card_saved_state)"
  by (simp add: card_saved_state_eq handleToolCall_def toolSwitch_def processQuickCheckout_def
      getQuickCheckoutData_def getDefaultPaymentMethod_def getDefaultShippingAddress_def
      getDefaultBillingAddress_def getProfile_def find_or_first_def quickCheckoutWith_def
      payWithSavedMethod_def demo_env_def demo_session_def demo_profile_def demo_method_def
      truthy_def Let_def)

text \<open>
  Claim C10 as amended. For a profile with at least one saved payment method and none
  marked as the default, \<open>getDefaultPaymentMethod\<close> and \<open>getQuickCheckoutData\<close> return
  the first saved method \<open>m\<close>, and \<open>process_quick_checkout\<close> never answers that no
  payment method is saved. When \<open>m\<close> is a card with a token it creates the card charge
  and the session follows the charge as for \<open>process_card_payment\<close>; when \<open>m\<close> is
  PromptPay, or internet banking with a bank code, it creates the source and then the
  charge, and the session becomes \<open>pending_payment\<close> once both are created. In each
  case the world it leaves is the one after the last gateway call, and a rejected call
  leaves the session as it was. When \<open>m\<close> is none of these, it answers that the saved
  method is incomplete and changes nothing.
\<close>

theorem default_payment_method_falls_back_to_first:
  assumes "profiles st uid = Some p" and "paymentMethods p = m # ms"
    and "\<forall>x \<in> set (m # ms). \<not> pm_isDefault x"
  shows
    "getDefaultPaymentMethod uid st = Some m
     \<and> qc_paymentMethod (getQuickCheckoutData uid st) = Some m
     \<and> (userProfileService env \<and> userId (session st) = Some uid \<and> uid \<noteq> [] \<longrightarrow>
          processQuickCheckout env u st = quickCheckoutWith env uid m st \<and>
          fst (handleToolCall env (process_quick_checkout u) st)
            \<noteq> ''No saved payment method found. Please add a payment method first.'' \<and>
          (case handleToolCall env (process_quick_checkout u) st of
             (r, st') \<Rightarrow>
               (\<forall>tok out w.
                  pm_type m = card \<and> pm_cardToken m = Some tok \<and> tok \<noteq> [] \<and>
                  omise_charges_create env (cardChargeParams tok (session st)) (world st) = (out, w)
                  \<longrightarrow>
                  world st' = w \<and>
                  session st' =
                    (case out of
                       Inl e \<Rightarrow> session st
                     | Inr charge \<Rightarrow>
                         if charge_status charge = ''successful''
                           then (session st)\<lparr> status := completed \<rparr>
                         else if charge_status charge = ''pending''
                           then (session st)\<lparr> status := pending_payment \<rparr>
                         else session st))
               \<and> (\<forall>o1 w1.
                  pm_type m = promptpay \<and>
                  omise_sources_create env (promptPaySourceParams (session st)) (world st) = (o1, w1)
                  \<longrightarrow>
                  (case o1 of
                     Inl e \<Rightarrow> world st' = w1 \<and> session st' = session st
                   | Inr src \<Rightarrow>
                       (\<forall>o2 w2.
                          omise_charges_create env (sourceChargeParams src (session st)) w1 = (o2, w2)
                          \<longrightarrow>
                          world st' = w2 \<and>
                          session st' =
                            (case o2 of
                               Inl e \<Rightarrow> session st
                             | Inr charge \<Rightarrow> (session st)\<lparr> status := pending_payment \<rparr>))))
               \<and> (\<forall>code o1 w1.
                  pm_type m = internet_banking \<and> pm_bankCode m = Some code \<and> code \<noteq> [] \<and>
                  omise_sources_create env (bankSourceParams code (session st)) (world st) = (o1, w1)
                  \<longrightarrow>
                  (case o1 of
                     Inl e \<Rightarrow> world st' = w1 \<and> session st' = session st
                   | Inr src \<Rightarrow>
                       (\<forall>o2 w2.
                          omise_charges_create env (sourceChargeParams src (session st)) w1 = (o2, w2)
                          \<longrightarrow>
                          world st' = w2 \<and>
                          session st' =
                            (case o2 of
                               Inl e \<Rightarrow> session st
                             | Inr charge \<Rightarrow> (session st)\<lparr> status := pending_payment \<rparr>))))
               \<and> (\<not> (pm_type m = card \<and> truthy (pm_cardToken m)) \<and> pm_type m \<noteq> promptpay \<and>
                   \<not> (pm_type m = internet_banking \<and> truthy (pm_bankCode m))
                  \<longrightarrow> r = ''Saved payment method is incomplete or invalid.'' \<and> st' = st)))"
    (is "?A \<and> ?B \<and> (?P \<longrightarrow> ?Q)")
proof -
  have d: "getDefaultPaymentMethod uid st = Some m"
    using assms by (simp add: getDefaultPaymentMethod_def getProfile_def find_or_first_no_match)
  have q: "qc_paymentMethod (getQuickCheckoutData uid st) = Some m"
    using assms(1) d by (simp add: getQuickCheckoutData_def getProfile_def)
  have main: ?Q
    if cfg: "userProfileService env" "userId (session st) = Some uid" "uid \<noteq> []"
  proof -
    have r: "processQuickCheckout env u st = quickCheckoutWith env uid m st"
      using cfg q by (simp add: processQuickCheckout_def)
    obtain res st' where h: "handleToolCall env (process_quick_checkout u) st = (res, st')"
      by (cases "handleToolCall env (process_quick_checkout u) st")
    have st': "st' = snd (quickCheckoutWith env uid m st)"
      using h r handleToolCall_snd[of env "process_quick_checkout u" st]
      by (simp add: toolSwitch_def)
    have n: "res \<noteq> ''No saved payment method found. Please add a payment method first.''"
    proof (cases "quickCheckoutWith env uid m st")
      case (Pair x y)
      show ?thesis
      proof (cases x)
        case (Inl e)
        then show ?thesis
          using Pair r h by (cases e) (auto simp: handleToolCall_def toolSwitch_def)
      next
        case (Inr t)
        then show ?thesis
          using Pair r h quickCheckoutWith_result[of env uid m st t y]
          by (auto simp: handleToolCall_def toolSwitch_def)
      qed
    qed
    have A: "world st' = w \<and>
             session st' =
               (case out of
                  Inl e \<Rightarrow> session st
                | Inr charge \<Rightarrow>
                    if charge_status charge = ''successful''
                      then (session st)\<lparr> status := completed \<rparr>
                    else if charge_status charge = ''pending''
                      then (session st)\<lparr> status := pending_payment \<rparr>
                    else session st)"
      if "pm_type m = card \<and> pm_cardToken m = Some tok \<and> tok \<noteq> [] \<and>
          omise_charges_create env (cardChargeParams tok (session st)) (world st) = (out, w)"
      for tok out w
      using that st' quickCheckoutWith_card[of m tok env uid st]
        processCardPayment_effect[of env tok st out w]
      by simp
    have B: "case o1 of
               Inl e \<Rightarrow> world st' = w1 \<and> session st' = session st
             | Inr src \<Rightarrow>
                 (\<forall>o2 w2.
                    omise_charges_create env (sourceChargeParams src (session st)) w1 = (o2, w2)
                    \<longrightarrow>
                    world st' = w2 \<and>
                    session st' =
                      (case o2 of
                         Inl e \<Rightarrow> session st
                       | Inr charge \<Rightarrow> (session st)\<lparr> status := pending_payment \<rparr>))"
      if "pm_type m = promptpay \<and>
          omise_sources_create env (promptPaySourceParams (session st)) (world st) = (o1, w1)"
      for o1 w1
      using that st' quickCheckoutWith_promptpay[of m env uid st]
        createPromptPayPayment_effect[of env st o1 w1]
      by (cases o1) auto
    have C: "case o1 of
               Inl e \<Rightarrow> world st' = w1 \<and> session st' = session st
             | Inr src \<Rightarrow>
                 (\<forall>o2 w2.
                    omise_charges_create env (sourceChargeParams src (session st)) w1 = (o2, w2)
                    \<longrightarrow>
                    world st' = w2 \<and>
                    session st' =
                      (case o2 of
                         Inl e \<Rightarrow> session st
                       | Inr charge \<Rightarrow> (session st)\<lparr> status := pending_payment \<rparr>))"
      if "pm_type m = internet_banking \<and> pm_bankCode m = Some code \<and> code \<noteq> [] \<and>
          omise_sources_create env (bankSourceParams code (session st)) (world st) = (o1, w1)"
      for code o1 w1
      using that st' quickCheckoutWith_bank[of m code env uid st]
        createInternetBankingPayment_effect[of env code st o1 w1]
      by (cases o1) auto
    have D: "res = ''Saved payment method is incomplete or invalid.'' \<and> st' = st"
      if "\<not> (pm_type m = card \<and> truthy (pm_cardToken m)) \<and> pm_type m \<noteq> promptpay \<and>
          \<not> (pm_type m = internet_banking \<and> truthy (pm_bankCode m))"
      using that h r quickCheckoutWith_incomplete[of m env uid st]
      by (auto simp: handleToolCall_def toolSwitch_def)
    show ?thesis
      unfolding h using r n A B C D by (simp only: fst_conv prod.case) blast
  qed
  have "?P \<longrightarrow> ?Q"
    by (intro impI, elim conjE) (rule main; assumption)
  with d q show ?thesis by (intro conjI)
qed

text \<open>
  Profiles without a default method whose first saved method is a bank transfer, a card
  with a token, PromptPay and mobile banking: the first three are charged, the last is
  answered as incomplete.
\<close>

theorem default_payment_method_falls_back_to_first_witness:
  "getDefaultPaymentMethod ''user_1''
      (demo_state active [widget] [bank_method, demo_method promptpay False]) = Some bank_method
   \<and> pm_isDefault bank_method = False
   \<and> world (snd (handleToolCall (demo_env ''pending'' []) (process_quick_checkout None)
        (demo_state active [widget] [bank_method, demo_method promptpay False]))) = 2
   \<and> session (snd (handleToolCall (demo_env ''pending'' []) (process_quick_checkout None)
        (demo_state active [widget] [bank_method, demo_method promptpay False])))
       = demo_session pending_payment [widget]
   \<and> fst (handleToolCall (demo_env ''pending'' []) (process_quick_checkout None)
        (demo_state active [widget] [bank_method, demo_method promptpay False]))
      = ''Quick Checkout:'' @ nl @ ''Internet banking payment created! Please visit: ''
           @ ''https://pay.example/authorize'' @ nl @ ''Charge ID: chrg_test_1''
   \<and> world (snd (handleToolCall (demo_env ''successful'' []) (process_quick_checkout None)
        (demo_state active [widget] [card_method]))) = 1
   \<and> session (snd (handleToolCall (demo_env ''successful'' []) (process_quick_checkout None)
        (demo_state active [widget] [card_method]))) = demo_session completed [widget]
   \<and> world (snd (handleToolCall (demo_env ''pending'' []) (process_quick_checkout None)
        (demo_state active [widget] [demo_method promptpay False]))) = 2
   \<and> session (snd (handleToolCall (demo_env ''pending'' []) (process_quick_checkout None)
        (demo_state active [widget] [demo_method promptpay False])))
       = demo_session pending_payment [widget]
   \<and> handleToolCall (demo_env ''pending'' []) (process_quick_checkout None)
        (demo_state active [widget] [demo_method mobile_banking False])
       = (''Saved payment method is incomplete or invalid.'',
          demo_state active [widget] [demo_method mobile_banking False])"
proof -
  let ?S = "demo_state active [widget] [bank_method, demo_method promptpay False]"
  let ?E = "demo_env ''pending'' []"
  let ?src = "\<lparr> source_id = ''src_test_1'', scannable_download_uri = None \<rparr>"
  have a: "profiles (demo_state active [widget] ms) ''user_1'' = Some (demo_profile ms)" for ms
    by (simp add: demo_state_def)
  have b: "paymentMethods (demo_profile (x # xs)) = x # xs" for x xs
    by (simp add: demo_profile_def)
  have c: "\<forall>x \<in> set (bank_method # [demo_method promptpay False]). \<not> pm_isDefault x"
    by (simp add: bank_method_def demo_method_def)
  have c1: "\<forall>x \<in> set (card_method # []). \<not> pm_isDefault x"
    by (simp add: card_method_def demo_method_def)
  have c2: "\<forall>x \<in> set (demo_method t False # []). \<not> pm_isDefault x" for t
    by (simp add: demo_method_def)
  have e: "userProfileService (demo_env x []) \<and>
           userId (session (demo_state active [widget] ms)) = Some ''user_1'' \<and> ''user_1'' \<noteq> []"
    for x ms
    by (simp add: demo_env_def demo_state_def demo_session_def)
  have sess: "session (demo_state active [widget] ms) = demo_session active [widget]" for ms
    by (simp add: demo_state_def)
  have wld: "world (demo_state active [widget] ms) = 0" for ms
    by (simp add: demo_state_def)
  have sp: "(demo_session active [widget])\<lparr> status := x \<rparr> = demo_session x [widget]" for x
    by (simp add: demo_session_def)
  have os: "omise_sources_create (demo_env x []) p 0 = (Inr ?src, 1)" for x p
    by (simp add: demo_env_def)
  have oc: "omise_charges_create (demo_env x []) p n = (Inr (demo_charge x p), Suc n)" for x p n
    by (simp add: demo_env_def)
  note t = default_payment_method_falls_back_to_first[OF a b c, of ?E None]
  note u = t[THEN conjunct2, THEN conjunct2, THEN mp, OF e, THEN conjunct2, THEN conjunct2]
  obtain r0 st0 where h0: "handleToolCall ?E (process_quick_checkout None) ?S = (r0, st0)"
    by (cases "handleToolCall ?E (process_quick_checkout None) ?S")
  have k: "pm_type bank_method = internet_banking \<and> pm_bankCode bank_method = Some ''scb'' \<and>
      ''scb'' \<noteq> [] \<and>
      omise_sources_create ?E (bankSourceParams ''scb'' (session ?S)) (world ?S) = (Inr ?src, 1)"
    by (simp add: bank_method_def demo_method_def os wld)
  have v: "world (snd (handleToolCall ?E (process_quick_checkout None) ?S)) = 2 \<and>
           session (snd (handleToolCall ?E (process_quick_checkout None) ?S))
             = demo_session pending_payment [widget]"
    using u[unfolded h0 prod.case,
        THEN conjunct2, THEN conjunct2, THEN conjunct1, rule_format,
        of "''scb''" "Inr ?src" 1, OF k]
      oc[of "''pending''" _ 1] h0
    by (simp add: sess sp)
  have f: "pm_isDefault bank_method = False"
    by (simp add: bank_method_def demo_method_def)
  have x: "fst (handleToolCall ?E (process_quick_checkout None) ?S)
      = ''Quick Checkout:'' @ nl @ ''Internet banking payment created! Please visit: ''
           @ ''https://pay.example/authorize'' @ nl @ ''Charge ID: chrg_test_1''"
    by (simp add: handleToolCall_def toolSwitch_def processQuickCheckout_def
        getQuickCheckoutData_def getDefaultPaymentMethod_def getDefaultShippingAddress_def
        getDefaultBillingAddress_def getProfile_def find_or_first_def
        quickCheckoutWith_def payWithSavedMethod_def createInternetBankingPayment_def
        createSource_def createCharge_def bank_method_def demo_method_def demo_env_def
        demo_state_def demo_session_def demo_profile_def demo_charge_def truthy_def
        or_else_def show_opt_def Let_def)
  let ?S1 = "demo_state active [widget] [card_method]"
  let ?E1 = "demo_env ''successful'' []"
  note u1 = default_payment_method_falls_back_to_first[OF a b c1, of ?E1 None,
      THEN conjunct2, THEN conjunct2, THEN mp, OF e, THEN conjunct2, THEN conjunct2]
  obtain r1 st1 where h1: "handleToolCall ?E1 (process_quick_checkout None) ?S1 = (r1, st1)"
    by (cases "handleToolCall ?E1 (process_quick_checkout None) ?S1")
  have k1: "pm_type card_method = card \<and> pm_cardToken card_method = Some ''tokn_saved_1'' \<and>
      ''tokn_saved_1'' \<noteq> [] \<and>
      omise_charges_create ?E1 (cardChargeParams ''tokn_saved_1'' (session ?S1)) (world ?S1)
        = (Inr (demo_charge ''successful'' (cardChargeParams ''tokn_saved_1'' (session ?S1))), 1)"
    by (simp add: card_method_def demo_method_def oc wld)
  have v1: "world (snd (handleToolCall ?E1 (process_quick_checkout None) ?S1)) = 1 \<and>
           session (snd (handleToolCall ?E1 (process_quick_checkout None) ?S1))
             = demo_session completed [widget]"
    using u1[unfolded h1 prod.case,
        THEN conjunct1, rule_format, OF k1] h1
    by (simp add: sess sp demo_charge_def)
  let ?S2 = "demo_state active [widget] [demo_method promptpay False]"
  note u2 = default_payment_method_falls_back_to_first[OF a b c2, of promptpay ?E None,
      THEN conjunct2, THEN conjunct2, THEN mp, OF e, THEN conjunct2, THEN conjunct2]
  obtain r2 st2 where h2: "handleToolCall ?E (process_quick_checkout None) ?S2 = (r2, st2)"
    by (cases "handleToolCall ?E (process_quick_checkout None) ?S2")
  have k2: "pm_type (demo_method promptpay False) = promptpay \<and>
      omise_sources_create ?E (promptPaySourceParams (session ?S2)) (world ?S2) = (Inr ?src, 1)"
    by (simp add: demo_method_def os wld)
  have v2: "world (snd (handleToolCall ?E (process_quick_checkout None) ?S2)) = 2 \<and>
           session (snd (handleToolCall ?E (process_quick_checkout None) ?S2))
             = demo_session pending_payment [widget]"
    using u2[unfolded h2 prod.case,
        THEN conjunct2, THEN conjunct1, rule_format, of "Inr ?src" 1, OF k2]
      oc[of "''pending''" _ 1] h2
    by (simp add: sess sp)
  let ?S3 = "demo_state active [widget] [demo_method mobile_banking False]"
  note u3 = default_payment_method_falls_back_to_first[OF a b c2, of mobile_banking ?E None,
      THEN conjunct2, THEN conjunct2, THEN mp, OF e, THEN conjunct2, THEN conjunct2]
  obtain r3 st3 where h3: "handleToolCall ?E (process_quick_checkout None) ?S3 = (r3, st3)"
    by (cases "handleToolCall ?E (process_quick_checkout None) ?S3")
  have k3: "\<not> (pm_type (demo_method mobile_banking False) = card \<and>
               truthy (pm_cardToken (demo_method mobile_banking False))) \<and>
            pm_type (demo_method mobile_banking False) \<noteq> promptpay \<and>
            \<not> (pm_type (demo_method mobile_banking False) = internet_banking \<and>
               truthy (pm_bankCode (demo_method mobile_banking False)))"
    by (simp add: demo_method_def)
  have v3: "handleToolCall ?E (process_quick_checkout None) ?S3
              = (''Saved payment method is incomplete or invalid.'', ?S3)"
    using u3[unfolded h3 prod.case,
        THEN conjunct2, THEN conjunct2, THEN conjunct2, THEN mp, OF k3] h3
    by simp
  show ?thesis
    using t[THEN conjunct1] f v x v1 v2 v3 by simp
qed

end
